theory Spec2Isabelle
  imports Complex_Main "HOL-Library.AList" "HOL-Library.Log_Nat"
begin

section \<open>Values shared by the engines\<close>

text \<open>
  A statistic is a NumPy float64. A finite value is \<open>Fin m e\<close>, the number
  \<open>m * 2 ^ e\<close>, kept in the form where \<open>m\<close> is odd (zero is \<open>Fin 0 0\<close>). Every
  operation computes its exact result and rounds it to 53 significant bits, ties to even,
  with gradual underflow down to the quantum \<open>2 ^ - 1074\<close> and overflow to an infinity,
  as binary64 arithmetic does. The sign of zero is not modelled.
\<close>

datatype pyfloat = Fin int int | PInf | NInf | NaN

function normalize :: "int \<Rightarrow> int \<Rightarrow> int \<times> int" where
  "normalize m e =
     (if m = 0 then (0, 0) else if even m then normalize (m div 2) (e + 1) else (m, e))"
  by pat_completeness auto
termination
  by (relation "measure (\<lambda>(m, e). nat \<bar>m\<bar>)") auto

declare normalize.simps [simp del]

text \<open>The integer nearest to \<open>m / d\<close> for \<open>d > 0\<close>, a tie going to the even one.\<close>

definition round_half_even_div :: "int \<Rightarrow> int \<Rightarrow> int" where
  "round_half_even_div m d =
     (let k = m div d; r = m mod d
      in if 2 * r < d then k
         else if d < 2 * r then k + 1
         else if even k then k else k + 1)"

text \<open>The value \<open>k * 2 ^ q\<close>, already short enough, as a float: overflow, canonical form.\<close>

definition pack :: "int \<Rightarrow> int \<Rightarrow> pyfloat" where
  "pack k q =
     (if k = 0 then Fin 0 0
      else if 1024 < bitlen \<bar>k\<bar> + q then (if 0 < k then PInf else NInf)
      else (case normalize k q of (m, e) \<Rightarrow> Fin m e))"

text \<open>
  Rounding the exact value \<open>m * 2 ^ e\<close>: the quantum \<open>2 ^ q\<close> leaves 53 bits, or is the
  smallest quantum of the format.
\<close>

definition round_to :: "int \<Rightarrow> int \<Rightarrow> pyfloat" where
  "round_to m e =
     (let q = max (e + bitlen \<bar>m\<bar> - 53) (- 1074)
      in if q \<le> e then pack m e
         else pack (round_half_even_div m (2 ^ nat (q - e))) q)"

definition float_of_int :: "int \<Rightarrow> pyfloat" where
  "float_of_int n = round_to n 0"

definition float_of_nat :: "nat \<Rightarrow> pyfloat" where
  "float_of_nat n = float_of_int (int n)"

fun fneg :: "pyfloat \<Rightarrow> pyfloat" where
  "fneg (Fin m e) = Fin (- m) e"
| "fneg PInf = NInf"
| "fneg NInf = PInf"
| "fneg NaN = NaN"

fun fadd :: "pyfloat \<Rightarrow> pyfloat \<Rightarrow> pyfloat" where
  "fadd NaN _ = NaN"
| "fadd _ NaN = NaN"
| "fadd (Fin m1 e1) (Fin m2 e2) =
     (let e = min e1 e2 in round_to (m1 * 2 ^ nat (e1 - e) + m2 * 2 ^ nat (e2 - e)) e)"
| "fadd PInf NInf = NaN"
| "fadd NInf PInf = NaN"
| "fadd PInf _ = PInf"
| "fadd _ PInf = PInf"
| "fadd NInf _ = NInf"
| "fadd _ NInf = NInf"

definition fsub :: "pyfloat \<Rightarrow> pyfloat \<Rightarrow> pyfloat" where
  "fsub a b = fadd a (fneg b)"

fun fmul :: "pyfloat \<Rightarrow> pyfloat \<Rightarrow> pyfloat" where
  "fmul NaN _ = NaN"
| "fmul _ NaN = NaN"
| "fmul (Fin m1 e1) (Fin m2 e2) = round_to (m1 * m2) (e1 + e2)"
| "fmul (Fin m e) PInf = (if m = 0 then NaN else if 0 < m then PInf else NInf)"
| "fmul (Fin m e) NInf = (if m = 0 then NaN else if 0 < m then NInf else PInf)"
| "fmul PInf (Fin m e) = (if m = 0 then NaN else if 0 < m then PInf else NInf)"
| "fmul NInf (Fin m e) = (if m = 0 then NaN else if 0 < m then NInf else PInf)"
| "fmul PInf PInf = PInf"
| "fmul NInf NInf = PInf"
| "fmul PInf NInf = NInf"
| "fmul NInf PInf = NInf"

text \<open>
  NumPy true division: a zero divisor gives \<open>nan\<close> or an infinity, never an exception.
  The quotient of the two integers is computed with more than 53 bits and a last bit that
  records a remainder, then rounded.
\<close>

definition div_finite :: "int \<Rightarrow> int \<Rightarrow> int \<Rightarrow> int \<Rightarrow> pyfloat" where
  "div_finite m1 e1 m2 e2 =
     (let k = nat (max 0 (bitlen \<bar>m2\<bar> + 55 - bitlen \<bar>m1\<bar>));
          n = \<bar>m1\<bar> * 2 ^ k;
          Q = n div \<bar>m2\<bar>;
          R = n mod \<bar>m2\<bar>;
          s = (if (0 < m1) = (0 < m2) then 1 else - 1)
      in round_to (s * (2 * Q + (if R = 0 then 0 else 1))) (e1 - e2 - int k - 1))"

fun fdiv :: "pyfloat \<Rightarrow> pyfloat \<Rightarrow> pyfloat" where
  "fdiv NaN _ = NaN"
| "fdiv _ NaN = NaN"
| "fdiv (Fin m1 e1) (Fin m2 e2) =
     (if m2 = 0 then (if m1 = 0 then NaN else if 0 < m1 then PInf else NInf)
      else div_finite m1 e1 m2 e2)"
| "fdiv (Fin m e) PInf = Fin 0 0"
| "fdiv (Fin m e) NInf = Fin 0 0"
| "fdiv PInf (Fin m e) = (if 0 \<le> m then PInf else NInf)"
| "fdiv NInf (Fin m e) = (if 0 \<le> m then NInf else PInf)"
| "fdiv PInf PInf = NaN"
| "fdiv PInf NInf = NaN"
| "fdiv NInf PInf = NaN"
| "fdiv NInf NInf = NaN"

fun fabs :: "pyfloat \<Rightarrow> pyfloat" where
  "fabs (Fin m e) = Fin \<bar>m\<bar> e"
| "fabs PInf = PInf"
| "fabs NInf = PInf"
| "fabs NaN = NaN"

text \<open>Comparisons: every comparison with \<open>nan\<close> is false.\<close>

fun flt :: "pyfloat \<Rightarrow> pyfloat \<Rightarrow> bool" where
  "flt NaN _ = False"
| "flt _ NaN = False"
| "flt (Fin m1 e1) (Fin m2 e2) =
     (let e = min e1 e2 in m1 * 2 ^ nat (e1 - e) < m2 * 2 ^ nat (e2 - e))"
| "flt (Fin m e) PInf = True"
| "flt (Fin m e) NInf = False"
| "flt PInf _ = False"
| "flt NInf NInf = False"
| "flt NInf _ = True"

definition fgt :: "pyfloat \<Rightarrow> pyfloat \<Rightarrow> bool" where
  "fgt a b = flt b a"

fun fle :: "pyfloat \<Rightarrow> pyfloat \<Rightarrow> bool" where
  "fle NaN _ = False"
| "fle _ NaN = False"
| "fle (Fin m1 e1) (Fin m2 e2) =
     (let e = min e1 e2 in m1 * 2 ^ nat (e1 - e) \<le> m2 * 2 ^ nat (e2 - e))"
| "fle (Fin m e) PInf = True"
| "fle (Fin m e) NInf = False"
| "fle PInf PInf = True"
| "fle PInf _ = False"
| "fle NInf _ = True"

fun isinf :: "pyfloat \<Rightarrow> bool" where
  "isinf PInf = True"
| "isinf NInf = True"
| "isinf _ = False"

fun isnan :: "pyfloat \<Rightarrow> bool" where
  "isnan NaN = True"
| "isnan _ = False"

text \<open>The constants the engines write: \<open>0.0\<close>, \<open>0.5\<close> (also \<open>1 / 2\<close>), \<open>1.0\<close>, \<open>2.0\<close>.\<close>

definition f_zero :: pyfloat where "f_zero = Fin 0 0"
definition f_half :: pyfloat where "f_half = Fin 1 (- 1)"
definition f_one :: pyfloat where "f_one = Fin 1 0"
definition f_two :: pyfloat where "f_two = Fin 1 1"

text \<open>Python exceptions, with the message where the source gives one.\<close>

datatype error =
    ValueError string
  | TypeError string
  | AssertionError string
  | KeyError string
  | IndexError
  | ZeroDivisionError
  | NoSuchObject


text \<open>
  \<open>NoSuchObject\<close> is not a Python exception: it is the result of reading a reference that
  points at no object, which Python rules out. It keeps the store total.
\<close>

section \<open>Data frames and the object store\<close>

datatype cell = Num pyfloat | Str string | Geom nat

text \<open>
  A pandas DataFrame: its columns in order, whether the object is a
  \<open>geopandas.GeoDataFrame\<close>, and the name of its geometry column.
\<close>

record dataframe =
  columns :: "(string \<times> cell list) list"
  is_geo :: bool
  geometry_name :: string

text \<open>
  Data frames are mutable objects, so they live in a store and the engines hold
  references. The world also counts the random draws taken, the evaluations of external
  functions (index formulas, counterfactual generator) and the warnings emitted.
\<close>

record world =
  heap :: "nat \<rightharpoonup> dataframe"
  next_addr :: nat
  draws :: nat
  evals :: nat
  warnings :: "string list"

type_synonym 'a M = "world \<Rightarrow> (error + 'a) \<times> world"

definition ret :: "'a \<Rightarrow> 'a M" where
  "ret x = (\<lambda>w. (Inr x, w))"

definition raise :: "error \<Rightarrow> 'a M" where
  "raise e = (\<lambda>w. (Inl e, w))"

definition bnd :: "'a M \<Rightarrow> ('a \<Rightarrow> 'b M) \<Rightarrow> 'b M" where
  "bnd m f = (\<lambda>w. case m w of (Inl e, w') \<Rightarrow> (Inl e, w') | (Inr x, w') \<Rightarrow> f x w')"

definition lift :: "error + 'a \<Rightarrow> 'a M" where
  "lift r = (case r of Inl e \<Rightarrow> raise e | Inr x \<Rightarrow> ret x)"

definition load :: "nat \<Rightarrow> dataframe M" where
  "load a = (\<lambda>w. case heap w a of None \<Rightarrow> (Inl NoSuchObject, w) | Some d \<Rightarrow> (Inr d, w))"

definition alloc :: "dataframe \<Rightarrow> nat M" where
  "alloc d = (\<lambda>w. (Inr (next_addr w),
                    w\<lparr>heap := (heap w)(next_addr w \<mapsto> d), next_addr := Suc (next_addr w)\<rparr>))"

definition store :: "nat \<Rightarrow> dataframe \<Rightarrow> unit M" where
  "store a d = (\<lambda>w. (Inr (), w\<lparr>heap := (heap w)(a \<mapsto> d)\<rparr>))"

text \<open>\<open>df.copy()\<close>: a new object with the same contents.\<close>

definition df_copy :: "nat \<Rightarrow> nat M" where
  "df_copy a = bnd (load a) alloc"

definition warn :: "string \<Rightarrow> unit M" where
  "warn msg = (\<lambda>w. (Inr (), w\<lparr>warnings := warnings w @ [msg]\<rparr>))"

subsection \<open>Operations on data frames\<close>

text \<open>
  Rows are addressed by position: the row index is taken to be the default
  \<open>RangeIndex\<close>, so a label and a position are the same number. Shapes that NumPy
  guarantees (a sample has the requested size) are not re-checked.
\<close>

definition nrows :: "dataframe \<Rightarrow> nat" where
  "nrows d = (case columns d of [] \<Rightarrow> 0 | (_, c) # _ \<Rightarrow> length c)"

definition get_col :: "dataframe \<Rightarrow> string \<Rightarrow> error + cell list" where
  "get_col d name = (case map_of (columns d) name of None \<Rightarrow> Inl (KeyError name) | Some c \<Rightarrow> Inr c)"

definition set_col :: "dataframe \<Rightarrow> string \<Rightarrow> cell list \<Rightarrow> dataframe" where
  "set_col d name c = d\<lparr>columns := AList.update name c (columns d)\<rparr>"

definition drop_cols :: "dataframe \<Rightarrow> string list \<Rightarrow> error + dataframe" where
  "drop_cols d names =
     (case filter (\<lambda>n. map_of (columns d) n = None) names of
        [] \<Rightarrow> Inr (d\<lparr>columns := filter (\<lambda>(n, c). n \<notin> set names) (columns d)\<rparr>)
      | n # _ \<Rightarrow> Inl (KeyError n))"

fun nums :: "cell list \<Rightarrow> error + pyfloat list" where
  "nums [] = Inr []"
| "nums (Num x # cs) = (case nums cs of Inl e \<Rightarrow> Inl e | Inr xs \<Rightarrow> Inr (x # xs))"
| "nums (_ # cs) = Inl (TypeError ''unsupported operand type(s)'')"

definition get_num :: "dataframe \<Rightarrow> string \<Rightarrow> error + pyfloat list" where
  "get_num d name = (case get_col d name of Inl e \<Rightarrow> Inl e | Inr c \<Rightarrow> nums c)"

definition fsum :: "pyfloat list \<Rightarrow> pyfloat" where
  "fsum xs = foldl fadd f_zero xs"

text \<open>Selecting entries of a column by a list of labels; a label that is absent raises.\<close>

definition take_labels :: "'a list \<Rightarrow> nat list \<Rightarrow> error + 'a list" where
  "take_labels c idx =
     (if list_all (\<lambda>i. i < length c) idx then Inr (map (\<lambda>i. c ! i) idx) else Inl IndexError)"

text \<open>\<open>df.iloc[idx]\<close>: the rows at the given positions, as a new data frame.\<close>

definition iloc :: "dataframe \<Rightarrow> nat list \<Rightarrow> error + dataframe" where
  "iloc d idx =
     (if list_all (\<lambda>i. i < nrows d) idx
      then Inr (d\<lparr>columns := map (\<lambda>(n, c). (n, map (\<lambda>i. c ! i) idx)) (columns d)\<rparr>)
      else Inl IndexError)"

text \<open>Boolean row selection \<open>df[mask]\<close>.\<close>

definition select_rows :: "dataframe \<Rightarrow> bool list \<Rightarrow> dataframe" where
  "select_rows d keep =
     d\<lparr>columns := map (\<lambda>(n, c). (n, map fst (filter snd (zip c keep)))) (columns d)\<rparr>"

text \<open>\<open>pd.DataFrame.from_dict\<close> of a dictionary of columns.\<close>

definition from_dict :: "(string \<times> cell list) list \<Rightarrow> dataframe" where
  "from_dict cs = \<lparr>columns = cs, is_geo = False, geometry_name = ''geometry''\<rparr>"

text \<open>\<open>gpd.GeoDataFrame(df)\<close>.\<close>

definition GeoDataFrame :: "dataframe \<Rightarrow> dataframe" where
  "GeoDataFrame d = d\<lparr>is_geo := True, geometry_name := ''geometry''\<rparr>"

subsection \<open>Random draws\<close>

text \<open>
  The functions of \<open>np.random\<close> that the engines call. Each takes the number of draws
  made so far, which stands for the generator's state, and its NumPy arguments. A sample
  of \<open>size\<close> rows is given as a function of the row number.
\<close>

record rng =
  multinomial :: "nat \<Rightarrow> pyfloat \<Rightarrow> pyfloat list \<Rightarrow> nat \<Rightarrow> nat \<Rightarrow> pyfloat list"
  multinomial1 :: "nat \<Rightarrow> pyfloat \<Rightarrow> pyfloat list \<Rightarrow> pyfloat list"
  binomial :: "nat \<Rightarrow> pyfloat list \<Rightarrow> pyfloat \<Rightarrow> pyfloat list"
  choice :: "nat \<Rightarrow> nat \<Rightarrow> nat \<Rightarrow> bool \<Rightarrow> nat list"
  permutation :: "nat \<Rightarrow> cell list \<Rightarrow> cell list"
  uniform :: "nat \<Rightarrow> nat \<Rightarrow> pyfloat list"

definition draw :: "(nat \<Rightarrow> 'a) \<Rightarrow> 'a M" where
  "draw f = (\<lambda>w. (Inr (f (draws w)), w\<lparr>draws := Suc (draws w)\<rparr>))"

text \<open>
  A \<open>for\<close> loop over the rounds that carries the loop's variables in \<open>s\<close> and collects
  one statistic per round; an exception in a round ends the loop.
\<close>

fun loopM :: "('s \<Rightarrow> nat \<Rightarrow> ('s \<times> pyfloat) M) \<Rightarrow> 's \<Rightarrow> nat list \<Rightarrow> pyfloat list M" where
  "loopM body s [] = ret []"
| "loopM body s (i # is) =
     bnd (body s i) (\<lambda>(s', x). bnd (loopM body s' is) (\<lambda>xs. ret (x # xs)))"

section \<open>Index results and external functions\<close>

text \<open>
  The arguments an index formula is called with after the data frame: two column names
  (single-group formulas) or one list of column names (multigroup formulas).
\<close>

datatype fargs = Cols string string | Groups "string list"

type_synonym seg_func = "dataframe \<Rightarrow> fargs \<Rightarrow> error + pyfloat"

datatype index_kind = SingleGroupIndex | MultiGroupIndex

text \<open>
  An index object as the engines read it. \<open>func\<close> is the identity of the Python
  function stored in \<open>_function\<close>; an environment maps identities to the formulas, which
  are pure functions of the data frame they receive and return the statistic (component
  \<open>[0]\<close> of their result). \<open>cls\<close> is \<open>str(type(obj))\<close>, \<open>kind\<close> the base class that
  \<open>isinstance\<close> finds.
\<close>

record seg_index =
  cls :: string
  kind :: index_kind
  statistic :: pyfloat
  data :: nat
  core_data :: nat
  group_pop_var :: string
  total_pop_var :: string
  groups :: "string list"
  func :: nat

definition call_index :: "(nat \<Rightarrow> seg_func) \<Rightarrow> nat \<Rightarrow> nat \<Rightarrow> fargs \<Rightarrow> pyfloat M" where
  "call_index fenv f a args =
     bnd (load a) (\<lambda>d w. (fenv f d args, w\<lparr>evals := Suc (evals w)\<rparr>))"

text \<open>
  The counterfactual generator \<open>_generate_counterfactual\<close> of \<open>segregation.util.util\<close>
  is a parameter: a pure function of the two data frames, the column names it is given
  positionally and the approach, returning two new data frames.
\<close>

type_synonym generator =
  "dataframe \<Rightarrow> dataframe \<Rightarrow> string list \<Rightarrow> string \<Rightarrow> error + dataframe \<times> dataframe"

definition call_generator ::
  "generator \<Rightarrow> nat \<Rightarrow> nat \<Rightarrow> string list \<Rightarrow> string \<Rightarrow> (nat \<times> nat) M" where
  "call_generator gen a1 a2 names approach =
     bnd (load a1) (\<lambda>d1.
     bnd (load a2) (\<lambda>d2.
     bnd (\<lambda>w. (gen d1 d2 names approach, w\<lparr>evals := Suc (evals w)\<rparr>)) (\<lambda>(c1, c2).
     bnd (alloc c1) (\<lambda>r1.
     bnd (alloc c2) (\<lambda>r2.
     ret (r1, r2))))))"

section \<open>Decomposition engine\<close>

record cross_statistics =
  s1_a1 :: pyfloat
  s1_a2 :: pyfloat
  s2_a1 :: pyfloat
  s2_a2 :: pyfloat

record decomposition =
  c_s :: pyfloat
  c_a :: pyfloat
  df1 :: nat
  df2 :: nat
  counterfac_df1 :: nat
  counterfac_df2 :: nat
  counterfactual_approach :: string
  results :: cross_statistics

definition decompose_segregation ::
  "(nat \<Rightarrow> seg_func) \<Rightarrow> generator \<Rightarrow> seg_index \<Rightarrow> seg_index \<Rightarrow> string \<Rightarrow> decomposition M" where
  "decompose_segregation fenv gen index1 index2 approach =
     bnd (df_copy (core_data index1)) (\<lambda>d1.
     bnd (df_copy (core_data index2)) (\<lambda>d2.
     if func index1 \<noteq> func index2
     then raise (AssertionError ''Segregation indices must be of the same type'')
     else
     bnd (call_generator gen d1 d2 [''group_pop_var'', ''total_pop_var''] approach) (\<lambda>(cf1, cf2).
     let seg_func = func index1;
         G_S1_A1 = statistic index1;
         G_S2_A2 = statistic index2 in
     bnd (call_index fenv seg_func cf1
            (Cols ''counterfactual_group_pop'' ''counterfactual_total_pop'')) (\<lambda>G_S1_A2.
     bnd (call_index fenv seg_func cf2
            (Cols ''counterfactual_group_pop'' ''counterfactual_total_pop'')) (\<lambda>G_S2_A1.
     let C_S = fmul f_half (fsub (fadd (fsub G_S1_A1 G_S2_A1) G_S1_A2) G_S2_A2);
         C_A = fmul f_half (fsub (fadd (fsub G_S1_A1 G_S1_A2) G_S2_A1) G_S2_A2) in
     ret \<lparr>c_s = C_S, c_a = C_A, df1 = d1, df2 = d2,
          counterfac_df1 = cf1, counterfac_df2 = cf2,
          counterfactual_approach = approach,
          results = \<lparr>s1_a1 = G_S1_A1, s1_a2 = G_S1_A2, s2_a1 = G_S2_A1, s2_a2 = G_S2_A2\<rparr>\<rparr>)))))"

section \<open>Single-sample inference engine\<close>

datatype pyobj = PyBool bool | PyInt int | PyStr string | PyNone

text \<open>\<open>aux[1 + aux.rfind("."):-2]\<close> for \<open>aux = str(type(obj))\<close>.\<close>

definition rfind_dot :: "string \<Rightarrow> int" where
  "rfind_dot s =
     (if CHR ''.'' \<in> set s
      then int (length s) - 1 - int (length (takeWhile (\<lambda>c. c \<noteq> CHR ''.'') (rev s)))
      else - 1)"

definition class_name_of :: "string \<Rightarrow> string" where
  "class_name_of aux = drop (nat (1 + rfind_dot aux)) (take (length aux - 2) aux)"

text \<open>
  \<open>df_aux = gpd.GeoDataFrame(df_aux); df_aux["geometry"] = data["geometry"]\<close>
\<close>

definition attach_geometry :: "dataframe \<Rightarrow> dataframe \<Rightarrow> error + dataframe" where
  "attach_geometry d df_aux =
     (case get_col d ''geometry'' of
        Inl e \<Rightarrow> Inl e
      | Inr g \<Rightarrow> Inr (set_col (GeoDataFrame df_aux) ''geometry'' g))"

text \<open>
  \<open>d.assign(geometry=d[gname][list(np.random.choice(n, n, replace=False))].reset_index()[gname])\<close>
  with \<open>n = d.shape[0]\<close>: a new data frame whose geometry column is shuffled.
\<close>

definition permute_geometry :: "rng \<Rightarrow> dataframe \<Rightarrow> string \<Rightarrow> dataframe M" where
  "permute_geometry R d gname =
     bnd (lift (get_col d gname)) (\<lambda>g.
     bnd (draw (\<lambda>k. choice R k (nrows d) (nrows d) False)) (\<lambda>idx.
     bnd (lift (take_labels g idx)) (\<lambda>g'.
     ret (set_col d ''geometry'' g'))))"

definition not_geo :: error where
  "not_geo = TypeError ''data is not a GeoDataFrame, therefore, this null approach does not apply.''"

definition not_implemented :: error where
  "not_implemented = ValueError ''Not implemented for MultiGroup indexes.''"

text \<open>
  The two multinomial samples of the systematic models: the column \<open>other_group_pop\<close> is
  written into the working copy, then both samples are drawn with the same probabilities.
\<close>

definition systematic_draws ::
  "rng \<Rightarrow> seg_index \<Rightarrow> nat \<Rightarrow> nat \<Rightarrow> ((nat \<Rightarrow> pyfloat list) \<times> (nat \<Rightarrow> pyfloat list)) M" where
  "systematic_draws R seg data_ref iterations =
     bnd (load data_ref) (\<lambda>d.
     bnd (lift (get_num d (total_pop_var seg))) (\<lambda>tot.
     bnd (lift (get_num d (group_pop_var seg))) (\<lambda>grp.
     bnd (store data_ref (set_col d ''other_group_pop'' (map Num (map2 fsub tot grp)))) (\<lambda>_.
     bnd (load data_ref) (\<lambda>d.
     bnd (lift (get_num d (total_pop_var seg))) (\<lambda>tot.
     let p_j = map (\<lambda>x. fdiv x (fsum tot)) tot in
     bnd (lift (get_num d (group_pop_var seg))) (\<lambda>grp.
     bnd (draw (\<lambda>k. multinomial R k (fsum grp) p_j iterations)) (\<lambda>sim0.
     bnd (lift (get_num d ''other_group_pop'')) (\<lambda>oth.
     bnd (draw (\<lambda>k. multinomial R k (fsum oth) p_j iterations)) (\<lambda>sim1.
     ret (sim0, sim1)))))))))))"

definition simul_frame :: "pyfloat list \<Rightarrow> pyfloat list \<Rightarrow> dataframe" where
  "simul_frame g t = from_dict [(''simul_group'', map Num g), (''simul_tot'', map Num t)]"

text \<open>Evaluating the index formula on a data frame built in this round.\<close>

definition eval_new :: "(nat \<Rightarrow> seg_func) \<Rightarrow> nat \<Rightarrow> dataframe \<Rightarrow> fargs \<Rightarrow> (unit \<times> pyfloat) M" where
  "eval_new fenv f df_aux args =
     bnd (alloc df_aux) (\<lambda>a. bnd (call_index fenv f a args) (\<lambda>x. ret ((), x)))"

definition systematic :: "(nat \<Rightarrow> seg_func) \<Rightarrow> rng \<Rightarrow> seg_index \<Rightarrow> nat \<Rightarrow> nat \<Rightarrow> pyfloat list M" where
  "systematic fenv R seg data_ref iterations =
     (case kind seg of
        SingleGroupIndex \<Rightarrow>
          bnd (systematic_draws R seg data_ref iterations) (\<lambda>(sim0, sim1).
          loopM (\<lambda>_ i.
            bnd (load data_ref) (\<lambda>d.
            let df_aux = simul_frame (sim0 i) (map2 fadd (sim0 i) (sim1 i)) in
            bnd (lift (if is_geo d then attach_geometry d df_aux else Inr df_aux)) (\<lambda>df_aux.
            eval_new fenv (func seg) df_aux (Cols ''simul_group'' ''simul_tot''))))
            () [0..<iterations])
      | MultiGroupIndex \<Rightarrow> raise not_implemented)"

definition bootstrap :: "(nat \<Rightarrow> seg_func) \<Rightarrow> rng \<Rightarrow> seg_index \<Rightarrow> nat \<Rightarrow> nat \<Rightarrow> pyfloat list M" where
  "bootstrap fenv R seg data_ref iterations =
     loopM (\<lambda>_ i.
       bnd (load data_ref) (\<lambda>d.
       bnd (draw (\<lambda>k. choice R k (nrows d) (nrows d) True)) (\<lambda>sample_index.
       bnd (lift (iloc d sample_index)) (\<lambda>df_aux.
       eval_new fenv (func seg) df_aux
         (case kind seg of
            SingleGroupIndex \<Rightarrow> Cols (group_pop_var seg) (total_pop_var seg)
          | MultiGroupIndex \<Rightarrow> Groups (groups seg))))))
       () [0..<iterations]"

text \<open>\<open>pd.DataFrame(rows, columns=names)\<close> from a list of rows.\<close>

definition from_rows :: "pyfloat list list \<Rightarrow> string list \<Rightarrow> error + dataframe" where
  "from_rows rows names =
     (if list_all (\<lambda>r. length r = length names) rows
      then Inr (from_dict (map (\<lambda>j. (names ! j, map (\<lambda>r. Num (r ! j)) rows)) [0..<length names]))
      else Inl (ValueError ''columns passed do not match the data''))"

text \<open>\<open>np.array(df)\<close> as a list of columns, and its rows.\<close>

fun all_nums :: "cell list list \<Rightarrow> error + pyfloat list list" where
  "all_nums [] = Inr []"
| "all_nums (c # cs) =
     (case nums c of Inl e \<Rightarrow> Inl e
      | Inr x \<Rightarrow> (case all_nums cs of Inl e \<Rightarrow> Inl e | Inr xs \<Rightarrow> Inr (x # xs)))"

definition np_array :: "dataframe \<Rightarrow> error + pyfloat list list" where
  "np_array d = all_nums (map snd (columns d))"

definition rows_of :: "nat \<Rightarrow> pyfloat list list \<Rightarrow> pyfloat list list" where
  "rows_of n cs = map (\<lambda>i. map (\<lambda>c. c ! i) cs) [0..<n]"

text \<open>One multinomial draw per unit, in order: \<open>map(lambda i: multinomial(i, p), t)\<close>.\<close>

fun draw_rows :: "rng \<Rightarrow> pyfloat list \<Rightarrow> pyfloat list \<Rightarrow> pyfloat list list M" where
  "draw_rows R p [] = ret []"
| "draw_rows R p (t # ts) =
     bnd (draw (\<lambda>k. multinomial1 R k t p)) (\<lambda>r.
     bnd (draw_rows R p ts) (\<lambda>rs. ret (r # rs)))"

definition evenness :: "(nat \<Rightarrow> seg_func) \<Rightarrow> rng \<Rightarrow> seg_index \<Rightarrow> nat \<Rightarrow> nat \<Rightarrow> pyfloat list M" where
  "evenness fenv R seg data_ref iterations =
     (case kind seg of
        SingleGroupIndex \<Rightarrow>
          bnd (load data_ref) (\<lambda>d.
          bnd (lift (get_num d (group_pop_var seg))) (\<lambda>grp.
          bnd (lift (get_num d (total_pop_var seg))) (\<lambda>tot.
          let p_null = fdiv (fsum grp) (fsum tot) in
          loopM (\<lambda>_ i.
            bnd (load data_ref) (\<lambda>d.
            bnd (lift (get_num d (total_pop_var seg))) (\<lambda>tot.
            bnd (draw (\<lambda>k. binomial R k tot p_null)) (\<lambda>sim.
            bnd (lift (get_num d (total_pop_var seg))) (\<lambda>tot.
            let df_aux = simul_frame sim tot in
            bnd (lift (if is_geo d then attach_geometry d df_aux else Inr df_aux)) (\<lambda>df_aux.
            eval_new fenv (func seg) df_aux (Cols ''simul_group'' ''simul_tot'')))))))
            () [0..<iterations])))
      | MultiGroupIndex \<Rightarrow>
          bnd (load (data seg)) (\<lambda>d0.
          bnd (lift (np_array d0)) (\<lambda>df.
          let total = fsum (map fsum df);
              global_prob_vector = map (\<lambda>c. fdiv (fsum c) total) df;
              t = map fsum (rows_of (nrows d0) df) in
          loopM (\<lambda>_ i.
            bnd (draw_rows R global_prob_vector t) (\<lambda>simul.
            bnd (lift (from_rows simul (groups seg))) (\<lambda>df_simul.
            eval_new fenv (func seg) df_simul (Groups (groups seg)))))
            () [0..<iterations])))"

definition permutation_approach ::
  "(nat \<Rightarrow> seg_func) \<Rightarrow> rng \<Rightarrow> seg_index \<Rightarrow> nat \<Rightarrow> nat \<Rightarrow> pyfloat list M" where
  "permutation_approach fenv R seg data_ref iterations =
     (case kind seg of
        SingleGroupIndex \<Rightarrow>
          bnd (load data_ref) (\<lambda>d.
          if \<not> is_geo d then raise not_geo
          else
          loopM (\<lambda>data_ref i.
            bnd (load data_ref) (\<lambda>d.
            bnd (permute_geometry R d (geometry_name d)) (\<lambda>d'.
            bnd (alloc d') (\<lambda>data_ref.
            bnd (call_index fenv (func seg) data_ref
                   (Cols (group_pop_var seg) (total_pop_var seg))) (\<lambda>x.
            ret (data_ref, x))))))
            data_ref [0..<iterations])
      | MultiGroupIndex \<Rightarrow> raise not_implemented)"

definition systematic_permutation ::
  "(nat \<Rightarrow> seg_func) \<Rightarrow> rng \<Rightarrow> seg_index \<Rightarrow> nat \<Rightarrow> nat \<Rightarrow> pyfloat list M" where
  "systematic_permutation fenv R seg data_ref iterations =
     (case kind seg of
        SingleGroupIndex \<Rightarrow>
          bnd (load data_ref) (\<lambda>d.
          if \<not> is_geo d then raise not_geo
          else
          bnd (systematic_draws R seg data_ref iterations) (\<lambda>(sim0, sim1).
          loopM (\<lambda>_ i.
            bnd (load data_ref) (\<lambda>d.
            let df_aux = simul_frame (sim0 i) (map2 fadd (sim0 i) (sim1 i)) in
            bnd (lift (attach_geometry d df_aux)) (\<lambda>df_aux.
            bnd (permute_geometry R df_aux ''geometry'') (\<lambda>df_aux.
            eval_new fenv (func seg) df_aux (Cols ''simul_group'' ''simul_tot'')))))
            () [0..<iterations]))
      | MultiGroupIndex \<Rightarrow> raise not_implemented)"

definition even_permutation ::
  "(nat \<Rightarrow> seg_func) \<Rightarrow> rng \<Rightarrow> seg_index \<Rightarrow> nat \<Rightarrow> nat \<Rightarrow> pyfloat list M" where
  "even_permutation fenv R seg data_ref iterations =
     (case kind seg of
        SingleGroupIndex \<Rightarrow>
          bnd (load data_ref) (\<lambda>d.
          if \<not> is_geo d then raise not_geo
          else
          bnd (lift (get_num d (group_pop_var seg))) (\<lambda>grp.
          bnd (lift (get_num d (total_pop_var seg))) (\<lambda>tot.
          let p_null = fdiv (fsum grp) (fsum tot) in
          loopM (\<lambda>_ i.
            bnd (load data_ref) (\<lambda>d.
            bnd (lift (get_num d (total_pop_var seg))) (\<lambda>tot.
            bnd (draw (\<lambda>k. binomial R k tot p_null)) (\<lambda>sim.
            bnd (lift (get_num d (total_pop_var seg))) (\<lambda>tot.
            let df_aux = simul_frame sim tot in
            bnd (lift (attach_geometry d df_aux)) (\<lambda>df_aux.
            bnd (permute_geometry R df_aux ''geometry'') (\<lambda>df_aux.
            eval_new fenv (func seg) df_aux (Cols ''simul_group'' ''simul_tot''))))))))
            () [0..<iterations])))
      | MultiGroupIndex \<Rightarrow> raise not_implemented)"

text \<open>
  \<open>np.empty(n)\<close>: an array of \<open>n\<close> arbitrary values. Every model that does not raise
  overwrites all of them.
\<close>

definition np_empty :: "nat \<Rightarrow> pyfloat list" where
  "np_empty n = replicate n f_zero"

text \<open>
  The six blocks \<open>if null_approach == ...\<close> of the source follow one another; at most one
  of their conditions holds, so they are modelled as one chain.
\<close>

definition simulate ::
  "(nat \<Rightarrow> seg_func) \<Rightarrow> rng \<Rightarrow> seg_index \<Rightarrow> nat \<Rightarrow> nat \<Rightarrow> string \<Rightarrow> pyfloat list M" where
  "simulate fenv R seg data_ref iterations null_approach =
     (if null_approach = ''systematic'' then systematic fenv R seg data_ref iterations
      else if null_approach = ''bootstrap'' then bootstrap fenv R seg data_ref iterations
      else if null_approach = ''evenness'' then evenness fenv R seg data_ref iterations
      else if null_approach = ''permutation''
        then permutation_approach fenv R seg data_ref iterations
      else if null_approach = ''systematic_permutation''
        then systematic_permutation fenv R seg data_ref iterations
      else if null_approach = ''even_permutation''
        then even_permutation fenv R seg data_ref iterations
      else ret (np_empty iterations))"

definition nonfinite_warning :: string where
  "nonfinite_warning = ''Some estimates resulted in NaN or infinite values for estimations under null hypothesis. These values will be removed for the final results.''"

text \<open>Removing the rounds whose statistic is \<open>nan\<close> or infinite, with one warning.\<close>

definition drop_nonfinite :: "pyfloat list \<Rightarrow> pyfloat list M" where
  "drop_nonfinite est =
     (if list_ex (\<lambda>x. isinf x \<or> isnan x) est
      then bnd (warn nonfinite_warning) (\<lambda>_. ret (filter (\<lambda>x. \<not> (isinf x \<or> isnan x)) est))
      else ret est)"

definition count_gt :: "pyfloat list \<Rightarrow> pyfloat \<Rightarrow> nat" where
  "count_gt est x = length (filter (\<lambda>e. fgt e x) est)"

definition count_lt :: "pyfloat list \<Rightarrow> pyfloat \<Rightarrow> nat" where
  "count_lt est x = length (filter (\<lambda>e. flt e x) est)"

text \<open>
  \<open>sum(Estimates_Stars > point_estimation) / iterations_under_null\<close>: the built-in
  \<open>sum\<close> of an empty array is the Python integer 0, and dividing it by the integer 0
  raises; in every other case the division is NumPy's.
\<close>

definition one_tailed_p :: "pyfloat list \<Rightarrow> pyfloat \<Rightarrow> nat \<Rightarrow> error + pyfloat" where
  "one_tailed_p est point_estimation iterations =
     (if est = [] \<and> iterations = 0 then Inl ZeroDivisionError
      else Inr (fdiv (float_of_nat (count_gt est point_estimation)) (float_of_nat iterations)))"

text \<open>
  \<open>2 * np.array([aux1, aux2]).min() / len(est)\<close> with
  \<open>aux1 = (point_estimation < est).sum()\<close> and \<open>aux2 = (point_estimation > est).sum()\<close>:
  a NumPy integer divided by a Python integer.
\<close>

definition two_tailed_p :: "pyfloat list \<Rightarrow> pyfloat \<Rightarrow> pyfloat" where
  "two_tailed_p est point_estimation =
     (let aux1 = count_gt est point_estimation;
          aux2 = count_lt est point_estimation
      in fdiv (float_of_nat (2 * min aux1 aux2)) (float_of_nat (length est)))"

definition valid_single_approaches :: "string list" where
  "valid_single_approaches =
     [''systematic'', ''bootstrap'', ''evenness'', ''permutation'',
      ''systematic_permutation'', ''even_permutation'']"

definition infer_segregation ::
  "(nat \<Rightarrow> seg_func) \<Rightarrow> rng \<Rightarrow> seg_index \<Rightarrow> nat \<Rightarrow> string \<Rightarrow> pyobj \<Rightarrow>
     (pyfloat \<times> pyfloat list \<times> pyfloat \<times> string) M" where
  "infer_segregation fenv R seg_class iterations_under_null null_approach two_tailed =
     (if \<not> List.member valid_single_approaches null_approach
      then raise (ValueError ''null_approach must one of 'systematic', 'bootstrap', 'evenness', 'permutation', 'systematic_permutation', 'even_permutation' '')
      else
      case two_tailed of
        PyBool tt \<Rightarrow>
          (let point_estimation = statistic seg_class in
           bnd (df_copy (data seg_class)) (\<lambda>data_ref.
           let class_name = class_name_of (cls seg_class) in
           bnd (simulate fenv R seg_class data_ref iterations_under_null null_approach)
             (\<lambda>Estimates_Stars.
           bnd (drop_nonfinite Estimates_Stars) (\<lambda>Estimates_Stars.
           bnd (if \<not> tt
                then lift (one_tailed_p Estimates_Stars point_estimation iterations_under_null)
                else ret (two_tailed_p Estimates_Stars point_estimation)) (\<lambda>p_value.
           ret (p_value, Estimates_Stars, point_estimation, class_name))))))
      | _ \<Rightarrow> raise (TypeError ''two_tailed is not a boolean object''))"

section \<open>Two-sample inference engine\<close>

text \<open>\<open>df[name] = value\<close> with one value for every row.\<close>

definition set_col_const :: "dataframe \<Rightarrow> string \<Rightarrow> cell \<Rightarrow> dataframe" where
  "set_col_const d name c = set_col d name (replicate (nrows d) c)"

text \<open>
  \<open>.round(0).astype(int)\<close>: rounding to the nearest integer, half to even; a
  non-finite value cannot be cast.
\<close>

fun round_value :: "pyfloat \<Rightarrow> error + pyfloat" where
  "round_value (Fin m e) =
     Inr (if 0 \<le> e then Fin m e else float_of_int (round_half_even_div m (2 ^ nat (- e))))"
| "round_value _ = Inl (ValueError ''Cannot convert non-finite values (NA or inf) to integer'')"

fun round_int :: "cell list \<Rightarrow> error + cell list" where
  "round_int [] = Inr []"
| "round_int (Num x # cs) =
     (case round_value x of
        Inl e \<Rightarrow> Inl e
      | Inr y \<Rightarrow> (case round_int cs of Inl e \<Rightarrow> Inl e | Inr ys \<Rightarrow> Inr (Num y # ys)))"
| "round_int (_ # cs) = Inl (TypeError ''unsupported operand type(s)'')"

definition round_col :: "dataframe \<Rightarrow> string \<Rightarrow> error + cell list" where
  "round_col d name = (case get_col d name of Inl e \<Rightarrow> Inl e | Inr c \<Rightarrow> round_int c)"

text \<open>\<open>df[[n1, n2, n3]]\<close>: a new data frame with the named columns.\<close>

fun select_cols_list :: "dataframe \<Rightarrow> string list \<Rightarrow> error + (string \<times> cell list) list" where
  "select_cols_list d [] = Inr []"
| "select_cols_list d (n # ns) =
     (case get_col d n of Inl e \<Rightarrow> Inl e
      | Inr c \<Rightarrow> (case select_cols_list d ns of Inl e \<Rightarrow> Inl e | Inr cs \<Rightarrow> Inr ((n, c) # cs)))"

definition select_cols :: "dataframe \<Rightarrow> string list \<Rightarrow> error + dataframe" where
  "select_cols d names =
     (case select_cols_list d names of Inl e \<Rightarrow> Inl e | Inr cs \<Rightarrow> Inr (d\<lparr>columns := cs\<rparr>))"

text \<open>\<open>df.columns = names\<close>, for as many names as there are columns.\<close>

definition rename_cols :: "dataframe \<Rightarrow> string list \<Rightarrow> dataframe" where
  "rename_cols d names = d\<lparr>columns := zip names (map snd (columns d))\<rparr>"

text \<open>
  \<open>pd.concat([d1, d2])\<close> along the rows: the columns of both, a column that one side lacks
  filled with \<open>nan\<close>.
\<close>

definition col_or_nan :: "dataframe \<Rightarrow> string \<Rightarrow> cell list" where
  "col_or_nan d name =
     (case map_of (columns d) name of None \<Rightarrow> replicate (nrows d) (Num NaN) | Some c \<Rightarrow> c)"

definition concat_frames :: "dataframe \<Rightarrow> dataframe \<Rightarrow> dataframe" where
  "concat_frames d1 d2 =
     d1\<lparr>columns :=
          map (\<lambda>n. (n, col_or_nan d1 n @ col_or_nan d2 n))
            (map fst (columns d1) @
             filter (\<lambda>n. map_of (columns d1) n = None) (map fst (columns d2)))\<rparr>"

text \<open>One round of random relabelling: shuffle the labels in place, split, evaluate.\<close>

definition relabel_round ::
  "(nat \<Rightarrow> seg_func) \<Rightarrow> rng \<Rightarrow> seg_index \<Rightarrow> seg_index \<Rightarrow> nat \<Rightarrow> fargs \<Rightarrow> (unit \<times> pyfloat) M" where
  "relabel_round fenv R seg_class_1 seg_class_2 stacked args =
     bnd (load stacked) (\<lambda>d.
     bnd (lift (get_col d ''grouping_variable'')) (\<lambda>labels.
     bnd (draw (\<lambda>k. permutation R k labels)) (\<lambda>labels.
     bnd (store stacked (set_col d ''grouping_variable'' labels)) (\<lambda>_.
     bnd (load stacked) (\<lambda>d.
     bnd (lift (get_col d ''grouping_variable'')) (\<lambda>labels.
     bnd (alloc (select_rows d (map (\<lambda>c. c = Str ''Group_1'') labels))) (\<lambda>stacked_data_1.
     bnd (lift (get_col d ''grouping_variable'')) (\<lambda>labels.
     bnd (alloc (select_rows d (map (\<lambda>c. c = Str ''Group_2'') labels))) (\<lambda>stacked_data_2.
     bnd (call_index fenv (func seg_class_1) stacked_data_1 args) (\<lambda>simulations_1.
     bnd (call_index fenv (func seg_class_2) stacked_data_2 args) (\<lambda>simulations_2.
     ret ((), fsub simulations_1 simulations_2))))))))))))"

text \<open>
  The single-group preparation of one side: round both population columns in place, keep
  the three columns in a new data frame and rename them.
\<close>

definition prepare_side :: "seg_index \<Rightarrow> nat \<Rightarrow> nat M" where
  "prepare_side seg data_ref =
     bnd (load data_ref) (\<lambda>d.
     bnd (lift (round_col d (group_pop_var seg))) (\<lambda>g.
     bnd (lift (round_col d (total_pop_var seg))) (\<lambda>t.
     bnd (store data_ref (set_col (set_col d (group_pop_var seg) g) (total_pop_var seg) t)) (\<lambda>_.
     bnd (load data_ref) (\<lambda>d.
     bnd (lift (select_cols d [group_pop_var seg, total_pop_var seg, ''grouping_variable''])) (\<lambda>d.
     bnd (alloc d) (\<lambda>data_ref.
     bnd (store data_ref (rename_cols d [''group'', ''total'', ''grouping_variable''])) (\<lambda>_.
     ret data_ref))))))))"

text \<open>The multigroup rounding loop: for each group, first data set 1, then data set 2.\<close>

fun round_groups :: "string list \<Rightarrow> nat \<Rightarrow> nat \<Rightarrow> unit M" where
  "round_groups [] data_1 data_2 = ret ()"
| "round_groups (g # gs) data_1 data_2 =
     bnd (load data_1) (\<lambda>d.
     bnd (lift (round_col d g)) (\<lambda>c.
     bnd (store data_1 (set_col d g c)) (\<lambda>_.
     bnd (load data_2) (\<lambda>d.
     bnd (lift (round_col d g)) (\<lambda>c.
     bnd (store data_2 (set_col d g c)) (\<lambda>_.
     round_groups gs data_1 data_2))))))"

definition random_label ::
  "(nat \<Rightarrow> seg_func) \<Rightarrow> rng \<Rightarrow> seg_index \<Rightarrow> seg_index \<Rightarrow> nat \<Rightarrow> nat \<Rightarrow> nat \<Rightarrow> pyfloat list M" where
  "random_label fenv R seg_class_1 seg_class_2 data_1 data_2 iterations =
     bnd (load data_1) (\<lambda>d.
     bnd (store data_1 (set_col_const d ''grouping_variable'' (Str ''Group_1''))) (\<lambda>_.
     bnd (load data_2) (\<lambda>d.
     bnd (store data_2 (set_col_const d ''grouping_variable'' (Str ''Group_2''))) (\<lambda>_.
     case kind seg_class_1 of
       SingleGroupIndex \<Rightarrow>
         bnd (prepare_side seg_class_1 data_1) (\<lambda>data_1.
         bnd (prepare_side seg_class_2 data_2) (\<lambda>data_2.
         bnd (load data_1) (\<lambda>d1.
         bnd (load data_2) (\<lambda>d2.
         bnd (alloc (concat_frames d1 d2)) (\<lambda>stacked_data.
         loopM (\<lambda>_ i. relabel_round fenv R seg_class_1 seg_class_2 stacked_data
                          (Cols ''group'' ''total''))
           () [0..<iterations])))))
     | MultiGroupIndex \<Rightarrow>
         (let groups_list = groups seg_class_1 in
          bnd (round_groups groups_list data_1 data_2) (\<lambda>_.
          if groups seg_class_1 \<noteq> groups seg_class_2
          then raise (ValueError ''MultiGroup groups should be the same'')
          else
          bnd (load data_1) (\<lambda>d1.
          bnd (load data_2) (\<lambda>d2.
          bnd (alloc (concat_frames d1 d2)) (\<lambda>stacked_data.
          loopM (\<lambda>_ i. relabel_round fenv R seg_class_1 seg_class_2 stacked_data
                           (Groups groups_list))
            () [0..<iterations])))))))))"

text \<open>\<open>np.where(coin > 0.5, a, b)\<close>, element by element.\<close>

definition np_where :: "pyfloat list \<Rightarrow> cell list \<Rightarrow> cell list \<Rightarrow> cell list" where
  "np_where coin a b = map (\<lambda>(c, x, y). if fgt c f_half then x else y) (zip coin (zip a b))"

text \<open>
  One side of one counterfactual round: the coin and the mixed column are written into
  the working data frame, the formula is evaluated on a new data frame without the
  observed group column, and the working data frame is replaced by one without the two
  helper columns.
\<close>

definition counterfactual_side ::
  "(nat \<Rightarrow> seg_func) \<Rightarrow> rng \<Rightarrow> seg_index \<Rightarrow> nat \<Rightarrow> nat \<Rightarrow> (nat \<times> pyfloat) M" where
  "counterfactual_side fenv R seg data_ref counterfac_df =
     bnd (load data_ref) (\<lambda>d.
     bnd (draw (\<lambda>k. uniform R k (nrows d))) (\<lambda>coin.
     bnd (store data_ref (set_col d ''fair_coin'' (map Num coin))) (\<lambda>_.
     bnd (load data_ref) (\<lambda>d.
     bnd (lift (get_num d ''fair_coin'')) (\<lambda>coin.
     bnd (lift (get_col d (group_pop_var seg))) (\<lambda>observed.
     bnd (load counterfac_df) (\<lambda>cf.
     bnd (lift (get_col cf ''counterfactual_group_pop'')) (\<lambda>counterfactual.
     bnd (store data_ref (set_col d ''test_group_pop_var'' (np_where coin observed counterfactual)))
       (\<lambda>_.
     bnd (load data_ref) (\<lambda>d.
     bnd (lift (drop_cols d [group_pop_var seg])) (\<lambda>data_test.
     bnd (alloc data_test) (\<lambda>data_test.
     bnd (call_index fenv (func seg) data_test
            (Cols ''test_group_pop_var'' (total_pop_var seg))) (\<lambda>simulations.
     bnd (load data_ref) (\<lambda>d.
     bnd (lift (drop_cols d [''fair_coin'', ''test_group_pop_var''])) (\<lambda>d.
     bnd (alloc d) (\<lambda>data_ref.
     ret (data_ref, simulations)))))))))))))))))"

definition counterfactual ::
  "(nat \<Rightarrow> seg_func) \<Rightarrow> generator \<Rightarrow> rng \<Rightarrow> seg_index \<Rightarrow> seg_index \<Rightarrow> nat \<Rightarrow> nat \<Rightarrow> nat \<Rightarrow>
     string \<Rightarrow> pyfloat list M" where
  "counterfactual fenv gen R seg_class_1 seg_class_2 data_1 data_2 iterations null_approach =
     (case kind seg_class_1 of
        MultiGroupIndex \<Rightarrow> raise not_implemented
      | SingleGroupIndex \<Rightarrow>
          (let internal_arg = drop 15 null_approach in
           bnd (call_generator gen data_1 data_2
                  [group_pop_var seg_class_1, total_pop_var seg_class_1,
                   group_pop_var seg_class_2, total_pop_var seg_class_2] internal_arg)
             (\<lambda>(counterfac_df1, counterfac_df2).
           bnd (if List.member [''counterfactual_share'', ''counterfactual_dual_composition'']
                     null_approach
                then
                  bnd (load counterfac_df1) (\<lambda>cf1.
                  bnd (lift (get_col cf1 ''counterfactual_total_pop'')) (\<lambda>t1.
                  bnd (load data_1) (\<lambda>d1.
                  bnd (store data_1 (set_col d1 (total_pop_var seg_class_1) t1)) (\<lambda>_.
                  bnd (load counterfac_df2) (\<lambda>cf2.
                  bnd (lift (get_col cf2 ''counterfactual_total_pop'')) (\<lambda>t2.
                  bnd (load data_2) (\<lambda>d2.
                  store data_2 (set_col d2 (total_pop_var seg_class_2) t2))))))))
                else ret ()) (\<lambda>_.
           loopM (\<lambda>(data_1, data_2) i.
             bnd (counterfactual_side fenv R seg_class_1 data_1 counterfac_df1)
               (\<lambda>(data_1, simulations_1).
             bnd (counterfactual_side fenv R seg_class_2 data_2 counterfac_df2)
               (\<lambda>(data_2, simulations_2).
             ret ((data_1, data_2), fsub simulations_1 simulations_2))))
             (data_1, data_2) [0..<iterations]))))"

definition valid_compare_approaches :: "string list" where
  "valid_compare_approaches =
     [''random_label'', ''counterfactual_composition'', ''counterfactual_share'',
      ''counterfactual_dual_composition'']"

definition compare_segregation ::
  "(nat \<Rightarrow> seg_func) \<Rightarrow> generator \<Rightarrow> rng \<Rightarrow> seg_index \<Rightarrow> seg_index \<Rightarrow> nat \<Rightarrow> string \<Rightarrow>
     (pyfloat \<times> pyfloat list \<times> pyfloat \<times> string) M" where
  "compare_segregation fenv gen R seg_class_1 seg_class_2 iterations_under_null null_approach =
     (if \<not> List.member valid_compare_approaches null_approach
      then raise (ValueError ''null_approach must one of 'random_label', 'counterfactual_composition', 'counterfactual_share', 'counterfactual_dual_composition' '')
      else if cls seg_class_1 \<noteq> cls seg_class_2
      then raise (TypeError ''seg_class_1 and seg_class_2 must be the same type/class.'')
      else
      (let point_estimation = fsub (statistic seg_class_1) (statistic seg_class_2);
           class_name = class_name_of (cls seg_class_1) in
       bnd (df_copy (data seg_class_1)) (\<lambda>data_1.
       bnd (df_copy (data seg_class_2)) (\<lambda>data_2.
       bnd (if null_approach = ''random_label''
            then random_label fenv R seg_class_1 seg_class_2 data_1 data_2 iterations_under_null
            else counterfactual fenv gen R seg_class_1 seg_class_2 data_1 data_2
                   iterations_under_null null_approach) (\<lambda>est_sim.
       bnd (drop_nonfinite est_sim) (\<lambda>est_sim.
       let p_value = two_tailed_p est_sim point_estimation in
       ret (p_value, est_sim, point_estimation, class_name)))))))"

section \<open>Multigroup dissimilarity index\<close>

text \<open>
  The index on the array \<open>df = np.array(core_data)\<close>, given by its rows (units) and its
  columns (groups).
\<close>

definition multi_D :: "pyfloat list list \<Rightarrow> pyfloat list list \<Rightarrow> pyfloat" where
  "multi_D rows cols =
     (let T = fsum (concat rows);
          ti = map fsum rows;
          pik = map2 (\<lambda>row t. map (\<lambda>x. fdiv x t) row) rows ti;
          Pk = map (\<lambda>c. fdiv (fsum c) (fsum (concat rows))) cols;
          Is = fsum (map (\<lambda>p. fmul p (fsub f_one p)) Pk)
      in fmul (fdiv f_one (fmul (fmul f_two T) Is))
           (fsum (concat (map2 (\<lambda>row t. map2 (\<lambda>p P. fmul (fabs (fsub p P)) t) row Pk) pik ti))))"

text \<open>
  \<open>_multi_dissim\<close>. The helper \<open>_nan_handle\<close> of \<open>segregation.util.util\<close> is a
  parameter: it receives the core data and returns a data frame or raises.
\<close>

definition multi_dissim ::
  "(dataframe \<Rightarrow> error + dataframe) \<Rightarrow> dataframe \<Rightarrow> string list \<Rightarrow>
     error + pyfloat \<times> dataframe \<times> string list" where
  "multi_dissim nan_handle data_in groups_in =
     (case select_cols data_in groups_in of
        Inl e \<Rightarrow> Inl e
      | Inr core \<Rightarrow>
          (case nan_handle core of
             Inl e \<Rightarrow> Inl e
           | Inr data_filtered \<Rightarrow>
               (case np_array core of
                  Inl e \<Rightarrow> Inl e
                | Inr df \<Rightarrow> Inr (multi_D (rows_of (nrows core) df) df, core, groups_in))))"

text \<open>
  The same computation with the call of the NaN handler removed: the statistic and the
  core data come from \<open>data[groups]\<close> directly.
\<close>

definition multi_dissim_unfiltered ::
  "dataframe \<Rightarrow> string list \<Rightarrow> error + pyfloat \<times> dataframe \<times> string list" where
  "multi_dissim_unfiltered data_in groups_in =
     (case select_cols data_in groups_in of
        Inl e \<Rightarrow> Inl e
      | Inr core \<Rightarrow>
          (case np_array core of
             Inl e \<Rightarrow> Inl e
           | Inr df \<Rightarrow> Inr (multi_D (rows_of (nrows core) df) df, core, groups_in)))"

section \<open>Example data\<close>

text \<open>
  A small single-group index formula for the examples: the share of the group in the
  whole population, \<open>sum(group) / sum(total)\<close>.
\<close>

definition ratio_index :: seg_func where
  "ratio_index d args =
     (case args of
        Cols g t \<Rightarrow>
          (case get_num d g of
             Inl e \<Rightarrow> Inl e
           | Inr gs \<Rightarrow> (case get_num d t of Inl e \<Rightarrow> Inl e | Inr ts \<Rightarrow> Inr (fdiv (fsum gs) (fsum ts))))
      | Groups gs \<Rightarrow> Inl (TypeError ''missing 1 required positional argument''))"

text \<open>The multigroup dissimilarity index as an index formula (statistic only).\<close>

definition multi_dissim_index :: seg_func where
  "multi_dissim_index d args =
     (case args of
        Groups gs \<Rightarrow> (case multi_dissim Inr d gs of Inl e \<Rightarrow> Inl e | Inr (s, c, g) \<Rightarrow> Inr s)
      | Cols g t \<Rightarrow> Inl (TypeError ''takes 2 positional arguments but 3 were given''))"

definition ex_fenv :: "nat \<Rightarrow> seg_func" where
  "ex_fenv f = (if f = 0 then ratio_index else multi_dissim_index)"

text \<open>
  A stand-in for the counterfactual generator: each data set receives the group counts
  of the other one as its counterfactual group population and keeps its own totals. It
  needs the named columns in both data sets.
\<close>

definition ex_counterfactual ::
  "dataframe \<Rightarrow> dataframe \<Rightarrow> string \<Rightarrow> string \<Rightarrow> string \<Rightarrow> string \<Rightarrow> error + dataframe \<times> dataframe" where
  "ex_counterfactual d1 d2 g1 t1 g2 t2 =
     (case get_col d1 g1 of Inl e \<Rightarrow> Inl e | Inr cg1 \<Rightarrow>
     (case get_col d1 t1 of Inl e \<Rightarrow> Inl e | Inr ct1 \<Rightarrow>
     (case get_col d2 g2 of Inl e \<Rightarrow> Inl e | Inr cg2 \<Rightarrow>
     (case get_col d2 t2 of Inl e \<Rightarrow> Inl e | Inr ct2 \<Rightarrow>
        Inr (set_col (set_col d1 ''counterfactual_group_pop'' cg2) ''counterfactual_total_pop'' ct1,
             set_col (set_col d2 ''counterfactual_group_pop'' cg1) ''counterfactual_total_pop'' ct2)))))"

definition ex_gen :: generator where
  "ex_gen d1 d2 names approach =
     (case names of
        [g, t] \<Rightarrow> ex_counterfactual d1 d2 g t g t
      | [g1, t1, g2, t2] \<Rightarrow> ex_counterfactual d1 d2 g1 t1 g2 t2
      | _ \<Rightarrow> Inl (TypeError ''missing required positional arguments''))"

definition ex_frame :: "string \<Rightarrow> string \<Rightarrow> int list \<Rightarrow> int list \<Rightarrow> dataframe" where
  "ex_frame g t gs ts =
     \<lparr>columns = [(g, map (\<lambda>x. Num (float_of_int x)) gs),
                 (t, map (\<lambda>x. Num (float_of_int x)) ts)],
      is_geo = False, geometry_name = ''geometry''\<rparr>"

definition ex_world :: "dataframe \<Rightarrow> dataframe \<Rightarrow> world" where
  "ex_world d1 d2 =
     \<lparr>heap = [0 \<mapsto> d1, 1 \<mapsto> d2], next_addr = 2, draws = 0, evals = 0, warnings = []\<rparr>"

definition ex_index :: "nat \<Rightarrow> string \<Rightarrow> string \<Rightarrow> pyfloat \<Rightarrow> seg_index" where
  "ex_index a g t s =
     \<lparr>cls = ''<class 'segregation.singlegroup.ratio.Ratio'>'', kind = SingleGroupIndex,
      statistic = s, data = a, core_data = a,
      group_pop_var = g, total_pop_var = t, groups = [], func = 0\<rparr>"

text \<open>Two data sets whose population columns carry the literal names of the decomposition.\<close>

definition lit_world :: world where
  "lit_world = ex_world (ex_frame ''group_pop_var'' ''total_pop_var'' [1, 3] [4, 4])
                        (ex_frame ''group_pop_var'' ''total_pop_var'' [1, 1] [4, 4])"

definition lit_index1 :: seg_index where
  "lit_index1 = ex_index 0 ''group_pop_var'' ''total_pop_var'' (Fin 1 (- 1))"

definition lit_index2 :: seg_index where
  "lit_index2 = ex_index 1 ''group_pop_var'' ''total_pop_var'' (Fin 1 (- 2))"

section \<open>Predicates on computations\<close>

text \<open>
  \<open>safe n0 m Q\<close>: started in a world whose objects below \<open>n0\<close> exist already, \<open>m\<close>
  leaves those objects and the list of warnings as they are, allocates only above, and a
  result it returns satisfies \<open>Q\<close>.
\<close>

definition safe :: "nat \<Rightarrow> 'a M \<Rightarrow> ('a \<Rightarrow> bool) \<Rightarrow> bool" where
  "safe n0 m Q =
     (\<forall>w. n0 \<le> next_addr w \<longrightarrow>
        (case m w of (r, w') \<Rightarrow>
           n0 \<le> next_addr w' \<and> (\<forall>a<n0. heap w' a = heap w a) \<and> warnings w' = warnings w \<and>
           (case r of Inl e \<Rightarrow> True | Inr x \<Rightarrow> Q x)))"

text \<open>\<open>no_raise E m\<close>: \<open>m\<close> never raises an exception in \<open>E\<close>.\<close>

definition no_raise :: "error set \<Rightarrow> 'a M \<Rightarrow> bool" where
  "no_raise E m = (\<forall>w e. fst (m w) = Inl e \<longrightarrow> e \<notin> E)"

text \<open>\<open>returns_len n m\<close>: a list that \<open>m\<close> returns has length \<open>n\<close>.\<close>

definition returns_len :: "nat \<Rightarrow> 'a list M \<Rightarrow> bool" where
  "returns_len n m = (\<forall>w xs. fst (m w) = Inr xs \<longrightarrow> length xs = n)"

text \<open>
  A source of random draws for the examples. Sampling with replacement returns the row
  chosen by \<open>pick\<close> for every position; sampling without replacement and shuffling
  reverse the order; the coin shows alternately more and less than one half.
\<close>

definition ex_rng :: "(nat \<Rightarrow> nat \<Rightarrow> nat) \<Rightarrow> rng" where
  "ex_rng pick =
     \<lparr>multinomial = (\<lambda>k n p size i. map (\<lambda>_. f_one) p),
      multinomial1 = (\<lambda>k n p. map (\<lambda>_. f_one) p),
      binomial = (\<lambda>k ns p. ns),
      choice = (\<lambda>k n m replace. if replace then replicate m (pick k n) else rev [0..<m]),
      permutation = (\<lambda>k xs. rev xs),
      uniform = (\<lambda>k n. map (\<lambda>i. if even (i + k) then Fin 3 (- 2) else Fin 1 (- 2)) [0..<n])\<rparr>"

text \<open>Two data sets with their own column names, for the inference engines.\<close>

definition pop_world :: world where
  "pop_world = ex_world (ex_frame ''HISP_'' ''TOT_POP'' [1, 3] [4, 4])
                        (ex_frame ''HISP_'' ''TOT_POP'' [1, 1] [4, 4])"

definition pop_index1 :: seg_index where
  "pop_index1 = ex_index 0 ''HISP_'' ''TOT_POP'' (Fin 1 (- 1))"

definition pop_index2 :: seg_index where
  "pop_index2 = ex_index 1 ''HISP_'' ''TOT_POP'' (Fin 1 (- 2))"

text \<open>A data set with an empty unit: its second unit has no population at all.\<close>

definition empty_unit_world :: world where
  "empty_unit_world = ex_world (ex_frame ''HISP_'' ''TOT_POP'' [1, 0] [2, 0])
                               (ex_frame ''HISP_'' ''TOT_POP'' [1, 0] [4, 0])"

text \<open>Multigroup index results over the same data, with the two columns as groups.\<close>

definition multi_index :: "nat \<Rightarrow> string \<Rightarrow> seg_index" where
  "multi_index a c =
     \<lparr>cls = c, kind = MultiGroupIndex,
      statistic = Fin 1 (- 2), data = a, core_data = a,
      group_pop_var = [], total_pop_var = [], groups = [''HISP_'', ''TOT_POP''], func = 1\<rparr>"

definition multi_dissim_cls :: string where
  "multi_dissim_cls = ''<class 'segregation.multigroup.multi_dissim.MultiDissim'>''"

text \<open>
  Two data sets with the literal column names whose shares are not all dyadic fractions:
  one half for the first, one third for the second.
\<close>

definition thirds_world :: world where
  "thirds_world = ex_world (ex_frame ''group_pop_var'' ''total_pop_var'' [1, 0] [1, 1])
                           (ex_frame ''group_pop_var'' ''total_pop_var'' [1, 0] [2, 1])"

definition thirds_index1 :: seg_index where
  "thirds_index1 = ex_index 0 ''group_pop_var'' ''total_pop_var'' (Fin 1 (- 1))"

definition thirds_index2 :: seg_index where
  "thirds_index2 =
     ex_index 1 ''group_pop_var'' ''total_pop_var'' (Fin 6004799503160661 (- 54))"

section \<open>The contract of the counterfactual generator\<close>


section \<open>Example data for the NaN handler\<close>

text \<open>
  A stand-in for the NaN handler: it returns the rows that have no \<open>nan\<close>. A data set
  with a \<open>nan\<close> in its second unit.
\<close>

definition ex_nan_handle :: "dataframe \<Rightarrow> error + dataframe" where
  "ex_nan_handle d =
     Inr (select_rows d
            (map (\<lambda>i. list_all (\<lambda>(n, c). c ! i \<noteq> Num NaN) (columns d)) [0..<nrows d]))"

definition nan_frame :: dataframe where
  "nan_frame = from_dict [(''A'', [Num (Fin 1 0), Num NaN]),
                         (''B'', [Num (Fin 3 0), Num (Fin 1 0)])]"

section \<open>Properties of the decomposition engine\<close>

lemmas M_defs = ret_def raise_def bnd_def lift_def load_def alloc_def store_def df_copy_def
  warn_def draw_def call_index_def call_generator_def

section \<open>Frame rules\<close>

text \<open>
  Rules for \<open>safe\<close>, one per operation of the store, and their use on the blocks of
  the engines: every block writes only to objects it has allocated itself.
\<close>

lemma safe_ret: "Q x \<Longrightarrow> safe n0 (ret x) Q"
  by (simp add: safe_def ret_def)

lemma safe_raise: "safe n0 (raise e) Q"
  by (simp add: safe_def raise_def)

lemma safe_lift: "safe n0 (lift r) (\<lambda>_. True)"
  by (cases r) (simp_all add: lift_def safe_ret safe_raise)

lemma safe_load: "safe n0 (load a) (\<lambda>_. True)"
  by (simp add: safe_def load_def split: option.splits)

lemma safe_alloc: "safe n0 (alloc d) (\<lambda>a. n0 \<le> a)"
  by (simp add: safe_def alloc_def)

lemma safe_store: "n0 \<le> a \<Longrightarrow> safe n0 (store a d) (\<lambda>_. True)"
  by (simp add: safe_def store_def)

lemma safe_draw: "safe n0 (draw f) (\<lambda>_. True)"
  by (simp add: safe_def draw_def)

lemma safeD:
  assumes "safe n0 m Q" and "n0 \<le> next_addr w" and "m w = (r, w')"
  shows "n0 \<le> next_addr w' \<and> (\<forall>a<n0. heap w' a = heap w a) \<and> warnings w' = warnings w \<and>
     (\<forall>x. r = Inr x \<longrightarrow> Q x)"
proof -
  from assms(1) have "n0 \<le> next_addr w \<longrightarrow>
        (case m w of (r, w') \<Rightarrow>
           n0 \<le> next_addr w' \<and> (\<forall>a<n0. heap w' a = heap w a) \<and> warnings w' = warnings w \<and>
           (case r of Inl e \<Rightarrow> True | Inr x \<Rightarrow> Q x))"
    unfolding safe_def by (rule spec)
  with assms(2,3) show ?thesis by (cases r) simp_all
qed

lemma safeI:
  assumes "\<And>w r w'. n0 \<le> next_addr w \<Longrightarrow> m w = (r, w') \<Longrightarrow>
     n0 \<le> next_addr w' \<and> (\<forall>a<n0. heap w' a = heap w a) \<and> warnings w' = warnings w \<and>
     (\<forall>x. r = Inr x \<longrightarrow> Q x)"
  shows "safe n0 m Q"
  unfolding safe_def
proof (intro allI impI)
  fix w :: world assume n: "n0 \<le> next_addr w"
  obtain r w' where m: "m w = (r, w')" by (cases "m w")
  from assms[OF n m] m show "case m w of (r, w') \<Rightarrow>
           n0 \<le> next_addr w' \<and> (\<forall>a<n0. heap w' a = heap w a) \<and> warnings w' = warnings w \<and>
           (case r of Inl e \<Rightarrow> True | Inr x \<Rightarrow> Q x)"
    by (cases r) simp_all
qed

lemma safe_weaken:
  assumes "safe n0 m Q" and "\<And>x. Q x \<Longrightarrow> R x"
  shows "safe n0 m R"
proof (rule safeI)
  fix w :: world and r w' assume "n0 \<le> next_addr w" "m w = (r, w')"
  from safeD[OF assms(1) this] assms(2)
  show "n0 \<le> next_addr w' \<and> (\<forall>a<n0. heap w' a = heap w a) \<and> warnings w' = warnings w \<and>
     (\<forall>x. r = Inr x \<longrightarrow> R x)" by simp
qed

lemma safe_bnd:
  assumes "safe n0 m Q" and "\<And>x. Q x \<Longrightarrow> safe n0 (f x) R"
  shows "safe n0 (bnd m f) R"
proof (rule safeI)
  fix w :: world and r w' assume n: "n0 \<le> next_addr w" and run: "bnd m f w = (r, w')"
  obtain r1 w1 where m: "m w = (r1, w1)" by (cases "m w")
  note 1 = safeD[OF assms(1) n m]
  show "n0 \<le> next_addr w' \<and> (\<forall>a<n0. heap w' a = heap w a) \<and> warnings w' = warnings w \<and>
     (\<forall>x. r = Inr x \<longrightarrow> R x)"
  proof (cases r1)
    case (Inl e)
    with m run have "r = Inl e" "w' = w1" by (simp_all add: bnd_def)
    with 1 show ?thesis by simp
  next
    case (Inr x)
    with 1 have "Q x" by simp
    from Inr m run have "f x w1 = (r, w')" by (simp add: bnd_def)
    from safeD[OF assms(2)[OF \<open>Q x\<close>] _ this] 1 show ?thesis by simp
  qed
qed

lemma safe_bnd_T: "safe n0 m (\<lambda>_. True) \<Longrightarrow> (\<And>x. safe n0 (f x) R) \<Longrightarrow> safe n0 (bnd m f) R"
  by (rule safe_bnd)

lemma safe_bnd_alloc: "(\<And>a. n0 \<le> a \<Longrightarrow> safe n0 (f a) R) \<Longrightarrow> safe n0 (bnd (alloc d) f) R"
  by (rule safe_bnd[OF safe_alloc])

lemma safe_call_index: "safe n0 (call_index fenv f a args) (\<lambda>_. True)"
  unfolding call_index_def
proof (rule safe_bnd_T[OF safe_load])
  fix d show "safe n0 (\<lambda>w. (fenv f d args, w\<lparr>evals := Suc (evals w)\<rparr>)) (\<lambda>_. True)"
    by (rule safeI) auto
qed

lemma safe_loopM:
  assumes "\<And>s i. I s \<Longrightarrow> safe n0 (body s i) (\<lambda>(s', x). I s')" and "I s"
  shows "safe n0 (loopM body s is) (\<lambda>_. True)"
  using assms(2)
proof (induction "is" arbitrary: s)
  case Nil
  show ?case unfolding loopM.simps by (rule safe_ret) simp
next
  case (Cons i "is")
  have step: "safe n0 (case p of (s', x) \<Rightarrow> bnd (loopM body s' is) (\<lambda>xs. ret (x # xs))) (\<lambda>_. True)"
    if "case p of (s', x) \<Rightarrow> I s'" for p
  proof (cases p)
    case (Pair s' x)
    with that have "I s'" by simp
    have "safe n0 (bnd (loopM body s' is) (\<lambda>xs. ret (x # xs))) (\<lambda>_. True)"
      by (rule safe_bnd_T[OF Cons.IH[OF \<open>I s'\<close>]]) (rule safe_ret, simp)
    with Pair show ?thesis by simp
  qed
  have "safe n0 (bnd (body s i) (\<lambda>p. case p of (s', x) \<Rightarrow> bnd (loopM body s' is) (\<lambda>xs. ret (x # xs)))) (\<lambda>_. True)"
    using assms(1)[OF Cons.prems] step
    by (rule safe_bnd[where Q = "\<lambda>(s', x). I s'"])
  then show ?case unfolding loopM.simps .
qed

lemma safe_eval_new: "safe n0 (eval_new fenv f d args) (\<lambda>_. True)"
  unfolding eval_new_def
  by (intro safe_bnd_alloc safe_bnd_T safe_call_index safe_ret) simp

lemma safe_loopM_T:
  assumes "\<And>s i. safe n0 (body s i) (\<lambda>_. True)"
  shows "safe n0 (loopM body s is) (\<lambda>_. True)"
  by (rule safe_loopM[where I = "\<lambda>_. True"]) (rule safe_weaken[OF assms], simp_all)

lemma safe_if: "(c \<Longrightarrow> safe n0 a Q) \<Longrightarrow> (\<not> c \<Longrightarrow> safe n0 b Q) \<Longrightarrow> safe n0 (if c then a else b) Q"
  by simp

lemma safe_case_prod: "(\<And>a b. safe n0 (f a b) Q) \<Longrightarrow> safe n0 (case p of (a, b) \<Rightarrow> f a b) Q"
  by (cases p) simp

lemmas safe_basic = safe_bnd_alloc safe_bnd_T safe_load safe_lift safe_store safe_draw safe_raise
  safe_call_index safe_eval_new safe_loopM_T safe_if safe_case_prod

lemma safe_systematic_draws: "n0 \<le> a \<Longrightarrow> safe n0 (systematic_draws R seg a n) (\<lambda>_. True)"
  unfolding systematic_draws_def Let_def
  by (intro safe_basic safe_ret) simp_all

lemma safe_permute_geometry: "safe n0 (permute_geometry R d g) (\<lambda>_. True)"
  unfolding permute_geometry_def
  by (intro safe_basic safe_ret) simp_all

lemma safe_systematic: "n0 \<le> a \<Longrightarrow> safe n0 (systematic fenv R seg a n) (\<lambda>_. True)"
  unfolding systematic_def Let_def
  by (cases "kind seg"; simp only: index_kind.case)
     (intro safe_basic safe_systematic_draws; simp)+

lemma safe_bootstrap: "safe n0 (bootstrap fenv R seg a n) (\<lambda>_. True)"
  unfolding bootstrap_def
  by (intro safe_basic)

lemma safe_draw_rows: "safe n0 (draw_rows R p ts) (\<lambda>_. True)"
  by (induction ts) (simp add: safe_ret, simp, intro safe_basic safe_ret, simp_all)

lemma safe_evenness: "safe n0 (evenness fenv R seg a n) (\<lambda>_. True)"
  unfolding evenness_def Let_def
  by (cases "kind seg"; simp only: index_kind.case)
     (intro safe_basic safe_draw_rows)+

lemma safe_permutation_approach:
  "n0 \<le> a \<Longrightarrow> safe n0 (permutation_approach fenv R seg a n) (\<lambda>_. True)"
  unfolding permutation_approach_def
  apply (cases "kind seg"; simp only: index_kind.case)
   apply (intro safe_bnd_T safe_load safe_if safe_raise)
   apply (rule safe_loopM[where I = "\<lambda>a. n0 \<le> a"])
    apply (intro safe_bnd_alloc safe_bnd_T safe_load safe_permute_geometry safe_call_index safe_ret)
    apply simp_all
  apply (rule safe_raise)
  done

lemma safe_systematic_permutation:
  "n0 \<le> a \<Longrightarrow> safe n0 (systematic_permutation fenv R seg a n) (\<lambda>_. True)"
  unfolding systematic_permutation_def Let_def
  by (cases "kind seg"; simp only: index_kind.case)
     (intro safe_basic safe_systematic_draws safe_permute_geometry; simp)+

lemma safe_even_permutation:
  "safe n0 (even_permutation fenv R seg a n) (\<lambda>_. True)"
  unfolding even_permutation_def Let_def
  by (cases "kind seg"; simp only: index_kind.case)
     (intro safe_basic safe_permute_geometry)+

lemma safe_simulate: "n0 \<le> a \<Longrightarrow> safe n0 (simulate fenv R seg a n ap) (\<lambda>_. True)"
  unfolding simulate_def
  by (intro safe_if safe_systematic safe_bootstrap safe_evenness safe_permutation_approach
        safe_systematic_permutation safe_even_permutation safe_ret) simp_all

lemma safe_df_copy: "safe n0 (df_copy a) (\<lambda>b. n0 \<le> b)"
  unfolding df_copy_def
  by (rule safe_bnd[OF safe_load]) (rule safe_alloc)

lemma safe_bnd_copy: "(\<And>a. n0 \<le> a \<Longrightarrow> safe n0 (f a) R) \<Longrightarrow> safe n0 (bnd (df_copy d) f) R"
  by (rule safe_bnd[OF safe_df_copy])

lemma safe_relabel_round:
  "n0 \<le> a \<Longrightarrow> safe n0 (relabel_round fenv R s1 s2 a args) (\<lambda>_. True)"
  unfolding relabel_round_def
  by (intro safe_basic safe_ret) simp_all

lemma safe_prepare_side: "n0 \<le> a \<Longrightarrow> safe n0 (prepare_side seg a) (\<lambda>b. n0 \<le> b)"
  unfolding prepare_side_def
  by (intro safe_basic safe_ret) simp_all

lemma safe_bnd_prepare:
  "n0 \<le> a \<Longrightarrow> (\<And>b. n0 \<le> b \<Longrightarrow> safe n0 (f b) R) \<Longrightarrow> safe n0 (bnd (prepare_side seg a) f) R"
  by (rule safe_bnd[OF safe_prepare_side])

lemma safe_round_groups:
  "n0 \<le> a \<Longrightarrow> n0 \<le> b \<Longrightarrow> safe n0 (round_groups gs a b) (\<lambda>_. True)"
  by (induction gs) (simp add: safe_ret, simp, intro safe_basic, simp_all)

lemma safe_random_label:
  "n0 \<le> a \<Longrightarrow> n0 \<le> b \<Longrightarrow> safe n0 (random_label fenv R s1 s2 a b n) (\<lambda>_. True)"
  unfolding random_label_def Let_def
  apply (intro safe_bnd_T safe_load safe_store; (simp; fail)?)
  apply (cases "kind s1"; simp only: index_kind.case)
   apply (intro safe_bnd_prepare safe_basic safe_relabel_round; simp)
  apply (intro safe_basic safe_relabel_round safe_round_groups; simp)
  done

lemma safe_call_generator:
  "safe n0 (call_generator gen a b names ap) (\<lambda>(c1, c2). n0 \<le> c1 \<and> n0 \<le> c2)"
  unfolding call_generator_def
  apply (intro safe_bnd_T safe_load)
   apply (rule safeI, auto)[1]
  apply (intro safe_case_prod safe_bnd_alloc safe_ret)
  apply simp
  done

lemma safe_counterfactual_side:
  "n0 \<le> a \<Longrightarrow> safe n0 (counterfactual_side fenv R seg a c) (\<lambda>(b, x). n0 \<le> b)"
  unfolding counterfactual_side_def
  by (intro safe_basic safe_ret) simp_all

lemma safe_counterfactual:
  "n0 \<le> a \<Longrightarrow> n0 \<le> b \<Longrightarrow> safe n0 (counterfactual fenv gen R s1 s2 a b n ap) (\<lambda>_. True)"
  unfolding counterfactual_def Let_def
  apply (cases "kind s1"; simp only: index_kind.case)
   apply (rule safe_bnd[OF safe_call_generator])
   apply (simp only: split_paired_all prod.case)
   apply (elim conjE)
   apply (rule safe_bnd_T)
    apply (intro safe_basic safe_ret; simp)
   apply (rule safe_loopM[where I = "\<lambda>(a, b). n0 \<le> a \<and> n0 \<le> b"])
    apply (simp only: split_paired_all prod.case)
    apply (elim conjE)
    apply (rule safe_bnd[OF safe_counterfactual_side], assumption)
    apply (simp only: split_paired_all prod.case)
    apply (rule safe_bnd[OF safe_counterfactual_side], assumption)
    apply (simp only: split_paired_all prod.case)
    apply (rule safe_ret)
    apply simp
   apply simp
  apply (rule safe_raise)
  done

section \<open>The two stages of the inference engines\<close>

lemma drop_nonfinite_eq:
  "drop_nonfinite raw w =
     (Inr (filter (\<lambda>x. \<not> (isinf x \<or> isnan x)) raw),
      w\<lparr>warnings := warnings w @
           (if list_ex (\<lambda>x. isinf x \<or> isnan x) raw then [nonfinite_warning] else [])\<rparr>)"
proof (cases "list_ex (\<lambda>x. isinf x \<or> isnan x) raw")
  case True
  then show ?thesis by (simp add: drop_nonfinite_def bnd_def warn_def ret_def)
next
  case False
  then have "filter (\<lambda>x. \<not> (isinf x \<or> isnan x)) raw = raw"
    by (induction raw) auto
  with False show ?thesis by (simp add: drop_nonfinite_def ret_def)
qed

lemma infer_segregation_Inr:
  assumes "infer_segregation fenv R seg n ap tw w = (Inr (p, est, pt, nm), w')"
  shows "\<exists>tt raw w1.
           tw = PyBool tt \<and> List.member valid_single_approaches ap \<and>
           bnd (df_copy (data seg)) (\<lambda>a. simulate fenv R seg a n ap) w = (Inr raw, w1) \<and>
           est = filter (\<lambda>x. \<not> (isinf x \<or> isnan x)) raw \<and>
           w' = w1\<lparr>warnings := warnings w1 @
                  (if list_ex (\<lambda>x. isinf x \<or> isnan x) raw then [nonfinite_warning] else [])\<rparr> \<and>
           pt = statistic seg \<and> nm = class_name_of (cls seg) \<and>
           (if tt then p = two_tailed_p est pt else one_tailed_p est pt n = Inr p)"
proof -
  from assms have v: "List.member valid_single_approaches ap"
    by (auto simp: infer_segregation_def raise_def split: if_splits)
  from assms v obtain tt where tw: "tw = PyBool tt"
    by (cases tw) (auto simp: infer_segregation_def raise_def)
  obtain r1 w1 where s: "bnd (df_copy (data seg)) (\<lambda>a. simulate fenv R seg a n ap) w = (r1, w1)"
    by (cases "bnd (df_copy (data seg)) (\<lambda>a. simulate fenv R seg a n ap) w")
  obtain r0 w0 where c: "df_copy (data seg) w = (r0, w0)" by (cases "df_copy (data seg) w")
  show ?thesis
  proof (cases r0)
    case (Inl e)
    with assms v tw c show ?thesis
      by (simp add: infer_segregation_def bnd_def Let_def)
  next
    case (Inr a)
    with s c have s': "simulate fenv R seg a n ap w0 = (r1, w1)" by (simp add: bnd_def)
    show ?thesis
    proof (cases r1)
      case (Inl e)
      with assms v tw c Inr s' show ?thesis
        by (simp add: infer_segregation_def bnd_def Let_def)
    next
      case raw: (Inr raw)
      with assms v tw c Inr s' s show ?thesis
        by (cases tt; cases "one_tailed_p (filter (\<lambda>x. \<not> (isinf x \<or> isnan x)) raw) (statistic seg) n")
           (auto simp: infer_segregation_def bnd_def Let_def drop_nonfinite_eq ret_def lift_def raise_def)
    qed
  qed
qed


lemma bnd_assoc: "bnd (bnd m f) g = bnd m (\<lambda>x. bnd (f x) g)"
  by (rule ext) (simp add: bnd_def split: prod.splits sum.splits)

lemma bnd_Inr_iff:
  "bnd m f w = (Inr y, w') \<longleftrightarrow> (\<exists>x w1. m w = (Inr x, w1) \<and> f x w1 = (Inr y, w'))"
  by (cases "m w") (auto simp: bnd_def split: sum.splits)

lemma compare_segregation_Inr:
  assumes "compare_segregation fenv gen R s1 s2 n ap w = (Inr (p, est, pt, nm), w')"
  shows "\<exists>raw w1.
           List.member valid_compare_approaches ap \<and> cls s1 = cls s2 \<and>
           bnd (df_copy (data s1)) (\<lambda>data_1. bnd (df_copy (data s2)) (\<lambda>data_2.
             if ap = ''random_label'' then random_label fenv R s1 s2 data_1 data_2 n
             else counterfactual fenv gen R s1 s2 data_1 data_2 n ap)) w = (Inr raw, w1) \<and>
           est = filter (\<lambda>x. \<not> (isinf x \<or> isnan x)) raw \<and>
           w' = w1\<lparr>warnings := warnings w1 @
                  (if list_ex (\<lambda>x. isinf x \<or> isnan x) raw then [nonfinite_warning] else [])\<rparr> \<and>
           pt = fsub (statistic s1) (statistic s2) \<and> nm = class_name_of (cls s1) \<and>
           p = two_tailed_p est pt"
proof -
  from assms have v: "List.member valid_compare_approaches ap" and c: "cls s1 = cls s2"
    by (auto simp: compare_segregation_def raise_def split: if_splits)
  let ?sim = "bnd (df_copy (data s1)) (\<lambda>data_1. bnd (df_copy (data s2)) (\<lambda>data_2.
             if ap = ''random_label'' then random_label fenv R s1 s2 data_1 data_2 n
             else counterfactual fenv gen R s1 s2 data_1 data_2 n ap))"
  have "compare_segregation fenv gen R s1 s2 n ap =
          bnd ?sim (\<lambda>est_sim. bnd (drop_nonfinite est_sim) (\<lambda>est_sim.
            ret (two_tailed_p est_sim (fsub (statistic s1) (statistic s2)), est_sim,
                 fsub (statistic s1) (statistic s2), class_name_of (cls s1))))"
    using v c by (simp add: compare_segregation_def Let_def bnd_assoc)
  with assms have "bnd ?sim (\<lambda>est_sim. bnd (drop_nonfinite est_sim) (\<lambda>est_sim.
            ret (two_tailed_p est_sim (fsub (statistic s1) (statistic s2)), est_sim,
                 fsub (statistic s1) (statistic s2), class_name_of (cls s1)))) w
          = (Inr (p, est, pt, nm), w')" by simp
  then obtain raw w1 where sim: "?sim w = (Inr raw, w1)"
    and fin: "bnd (drop_nonfinite raw) (\<lambda>est_sim.
            ret (two_tailed_p est_sim (fsub (statistic s1) (statistic s2)), est_sim,
                 fsub (statistic s1) (statistic s2), class_name_of (cls s1))) w1
          = (Inr (p, est, pt, nm), w')"
    unfolding bnd_Inr_iff[of ?sim] by blast
  from fin have "est = filter (\<lambda>x. \<not> (isinf x \<or> isnan x)) raw"
    "w' = w1\<lparr>warnings := warnings w1 @
                  (if list_ex (\<lambda>x. isinf x \<or> isnan x) raw then [nonfinite_warning] else [])\<rparr>"
    "pt = fsub (statistic s1) (statistic s2)" "nm = class_name_of (cls s1)"
    "p = two_tailed_p est pt"
    by (auto simp add: bnd_def drop_nonfinite_eq ret_def)
  with sim v c show ?thesis by blast
qed


section \<open>Length of the null sample\<close>

lemma len_ret: "length xs = n \<Longrightarrow> returns_len n (ret xs)"
  by (simp add: returns_len_def ret_def)

lemma len_raise: "returns_len n (raise e)"
  by (simp add: returns_len_def raise_def)

lemma len_bnd: "(\<And>x. returns_len n (f x)) \<Longrightarrow> returns_len n (bnd m f)"
  unfolding returns_len_def
proof (intro allI impI)
  fix w xs assume a: "\<And>x. \<forall>w xs. fst (f x w) = Inr xs \<longrightarrow> length xs = n"
    and r: "fst (bnd m f w) = Inr xs"
  obtain r1 w1 where m: "m w = (r1, w1)" by (cases "m w")
  show "length xs = n"
  proof (cases r1)
    case (Inl e)
    with m r show ?thesis by (simp add: bnd_def)
  next
    case (Inr x)
    with m r have "fst (f x w1) = Inr xs" by (simp add: bnd_def)
    with a show ?thesis by blast
  qed
qed

lemma len_if: "(c \<Longrightarrow> returns_len n a) \<Longrightarrow> (\<not> c \<Longrightarrow> returns_len n b) \<Longrightarrow> returns_len n (if c then a else b)"
  by simp

lemma len_case_prod: "(\<And>a b. returns_len n (f a b)) \<Longrightarrow> returns_len n (case p of (a, b) \<Rightarrow> f a b)"
  by (cases p) simp

lemma len_loopM: "returns_len (length is) (loopM body s is)"
proof (induction "is" arbitrary: s)
  case Nil
  show ?case by (simp add: len_ret)
next
  case (Cons i "is")
  show ?case unfolding returns_len_def
  proof (intro allI impI)
    fix w xs assume r: "fst (loopM body s (i # is) w) = Inr xs"
    obtain r1 w1 where b: "body s i w = (r1, w1)" by (cases "body s i w")
    show "length xs = length (i # is)"
    proof (cases r1)
      case (Inl e)
      with b r show ?thesis by (simp add: bnd_def)
    next
      case (Inr p)
      obtain s' x where p: "p = (s', x)" by (cases p)
      obtain r2 w2 where l: "loopM body s' is w1 = (r2, w2)" by (cases "loopM body s' is w1")
      show ?thesis
      proof (cases r2)
        case (Inl e)
        with b r Inr p l show ?thesis by (simp add: bnd_def)
      next
        case ys: (Inr ys)
        with l Cons.IH[of s'] have "length ys = length is"
          unfolding returns_len_def by (metis fst_conv)
        with b r Inr p l ys show ?thesis by (auto simp add: bnd_def ret_def)
      qed
    qed
  qed
qed

lemma len_loopM_upt: "returns_len n (loopM body s [0..<n])"
  using len_loopM[of "[0..<n]" body s] by simp

lemmas len_basic = len_bnd len_raise len_if len_case_prod len_loopM_upt

lemma len_simulate: "returns_len n (simulate fenv R seg a n ap)"
  unfolding simulate_def systematic_def bootstrap_def evenness_def permutation_approach_def
    systematic_permutation_def even_permutation_def Let_def np_empty_def
  by (cases "kind seg"; simp only: index_kind.case)
     (intro len_basic len_ret; simp)+

lemma len_random_label: "returns_len n (random_label fenv R s1 s2 a b n)"
  unfolding random_label_def Let_def
  by (cases "kind s1"; simp only: index_kind.case)
     (intro len_basic)+

lemma len_counterfactual: "returns_len n (counterfactual fenv gen R s1 s2 a b n ap)"
  unfolding counterfactual_def Let_def
  by (cases "kind s1"; simp only: index_kind.case)
     (intro len_basic)+

lemma len_infer_stage:
  "returns_len n (bnd (df_copy (data seg)) (\<lambda>a. simulate fenv R seg a n ap))"
  by (intro len_bnd len_simulate)

lemma len_compare_stage:
  "returns_len n (bnd (df_copy (data s1)) (\<lambda>data_1. bnd (df_copy (data s2)) (\<lambda>data_2.
             if ap = ''random_label'' then random_label fenv R s1 s2 data_1 data_2 n
             else counterfactual fenv gen R s1 s2 data_1 data_2 n ap)))"
  by (intro len_bnd len_if len_random_label len_counterfactual)

section \<open>The components of the decomposition\<close>


lemma thirds_run:
  "fst (decompose_segregation ex_fenv ex_gen thirds_index1 thirds_index2 ''composition''
          thirds_world)
   = Inr \<lparr>c_s = Fin 6004799503160663 (- 55), c_a = Fin 0 0, df1 = 2, df2 = 3,
          counterfac_df1 = 4, counterfac_df2 = 5, counterfactual_approach = ''composition'',
          results = \<lparr>s1_a1 = Fin 1 (- 1), s1_a2 = Fin 1 (- 1),
                      s2_a1 = Fin 6004799503160661 (- 54),
                      s2_a2 = Fin 6004799503160661 (- 54)\<rparr>\<rparr>"
  by code_simp


lemma thirds_difference:
  "fsub (Fin 1 (- 1)) (Fin 6004799503160661 (- 54)) = Fin 3002399751580331 (- 54)"
  by code_simp

lemma thirds_sum: "fadd (Fin 6004799503160663 (- 55)) (Fin 0 0) = Fin 6004799503160663 (- 55)"
  by code_simp




text \<open>
  C4. The two components need not add up to the difference of the two statistics: for
  the data sets with shares one half and one third the engine returns components, both
  computed from the same four cross statistics, whose float64 sum is
  \<open>6004799503160663 * 2 ^ - 55\<close>, while the difference of the statistics is
  \<open>3002399751580331 * 2 ^ - 54\<close>.
\<close>

theorem components_need_not_add_up:
  "\<exists>fenv gen index1 index2 approach w r.
     fst (decompose_segregation fenv gen index1 index2 approach w) = Inr r \<and>
     s1_a1 (results r) = statistic index1 \<and> s2_a2 (results r) = statistic index2 \<and>
     c_s r = fmul f_half (fsub (fadd (fsub (s1_a1 (results r)) (s2_a1 (results r)))
                                 (s1_a2 (results r))) (s2_a2 (results r))) \<and>
     c_a r = fmul f_half (fsub (fadd (fsub (s1_a1 (results r)) (s1_a2 (results r)))
                                 (s2_a1 (results r))) (s2_a2 (results r))) \<and>
     fadd (c_s r) (c_a r) \<noteq> fsub (statistic index1) (statistic index2)"
proof -
  let ?r = "\<lparr>c_s = Fin 6004799503160663 (- 55), c_a = Fin 0 0, df1 = 2, df2 = 3,
          counterfac_df1 = 4, counterfac_df2 = 5, counterfactual_approach = ''composition'',
          results = \<lparr>s1_a1 = Fin 1 (- 1), s1_a2 = Fin 1 (- 1),
                      s2_a1 = Fin 6004799503160661 (- 54),
                      s2_a2 = Fin 6004799503160661 (- 54)\<rparr>\<rparr>"
  have cs: "fmul f_half (fsub (fadd (fsub (Fin 1 (- 1)) (Fin 6004799503160661 (- 54)))
                                 (Fin 1 (- 1))) (Fin 6004799503160661 (- 54)))
            = Fin 6004799503160663 (- 55)"
    by code_simp
  have ca: "fmul f_half (fsub (fadd (fsub (Fin 1 (- 1)) (Fin 1 (- 1)))
                                 (Fin 6004799503160661 (- 54))) (Fin 6004799503160661 (- 54)))
            = Fin 0 0"
    by code_simp
  have "fst (decompose_segregation ex_fenv ex_gen thirds_index1 thirds_index2 ''composition''
          thirds_world) = Inr ?r \<and>
     s1_a1 (results ?r) = statistic thirds_index1 \<and>
     s2_a2 (results ?r) = statistic thirds_index2 \<and>
     c_s ?r = fmul f_half (fsub (fadd (fsub (s1_a1 (results ?r)) (s2_a1 (results ?r)))
                                 (s1_a2 (results ?r))) (s2_a2 (results ?r))) \<and>
     c_a ?r = fmul f_half (fsub (fadd (fsub (s1_a1 (results ?r)) (s1_a2 (results ?r)))
                                 (s2_a1 (results ?r))) (s2_a2 (results ?r))) \<and>
     fadd (c_s ?r) (c_a ?r) \<noteq> fsub (statistic thirds_index1) (statistic thirds_index2)"
    using thirds_run cs ca thirds_sum thirds_difference
    by (simp add: thirds_index1_def thirds_index2_def ex_index_def)
  then show ?thesis by blast
qed

section \<open>Column names in the decomposition\<close>








section \<open>The engines as simulation followed by the p-value\<close>

lemma infer_segregation_eq:
  assumes "List.member valid_single_approaches ap"
  shows "infer_segregation fenv R seg n ap (PyBool tt) =
           bnd (bnd (df_copy (data seg)) (\<lambda>a. simulate fenv R seg a n ap)) (\<lambda>raw.
           bnd (drop_nonfinite raw) (\<lambda>est.
           bnd (if \<not> tt then lift (one_tailed_p est (statistic seg) n)
                else ret (two_tailed_p est (statistic seg))) (\<lambda>p.
           ret (p, est, statistic seg, class_name_of (cls seg)))))"
  using assms by (simp add: infer_segregation_def Let_def bnd_assoc)

lemma compare_segregation_eq:
  assumes "List.member valid_compare_approaches ap" and "cls s1 = cls s2"
  shows "compare_segregation fenv gen R s1 s2 n ap =
           bnd (bnd (df_copy (data s1)) (\<lambda>data_1. bnd (df_copy (data s2)) (\<lambda>data_2.
                  if ap = ''random_label'' then random_label fenv R s1 s2 data_1 data_2 n
                  else counterfactual fenv gen R s1 s2 data_1 data_2 n ap))) (\<lambda>est_sim.
           bnd (drop_nonfinite est_sim) (\<lambda>est_sim.
           ret (two_tailed_p est_sim (fsub (statistic s1) (statistic s2)), est_sim,
                fsub (statistic s1) (statistic s2), class_name_of (cls s1))))"
  using assms by (simp add: compare_segregation_def Let_def bnd_assoc)

lemma safe_infer_stage:
  "safe n0 (bnd (df_copy (data seg)) (\<lambda>a. simulate fenv R seg a n ap)) (\<lambda>_. True)"
  by (intro safe_bnd_copy safe_simulate)

lemma safe_compare_stage:
  "safe n0 (bnd (df_copy (data s1)) (\<lambda>data_1. bnd (df_copy (data s2)) (\<lambda>data_2.
                  if ap = ''random_label'' then random_label fenv R s1 s2 data_1 data_2 n
                  else counterfactual fenv gen R s1 s2 data_1 data_2 n ap))) (\<lambda>_. True)"
  by (intro safe_bnd_copy safe_if safe_random_label safe_counterfactual)

lemma safe_decompose:
  "safe n0 (decompose_segregation fenv gen index1 index2 approach) (\<lambda>_. True)"
  unfolding decompose_segregation_def Let_def
  apply (intro safe_bnd_copy safe_if safe_raise)
  apply (rule safe_bnd[OF safe_call_generator])
  apply (simp only: split_paired_all prod.case)
  apply (intro safe_bnd_T safe_call_index safe_ret)
  apply simp
  done

text \<open>What the simulation leaves behind, and what the last stage adds.\<close>

lemma stage_frame:
  assumes "safe (next_addr w) m (\<lambda>_. True)" and "m w = (r, w1)"
  shows "\<forall>a<next_addr w. heap w1 a = heap w a" and "warnings w1 = warnings w"
  using safeD[OF assms(1) order_refl assms(2)] by simp_all

lemma bnd_run:
  "m w = (r1, w1) \<Longrightarrow> bnd m f w = (case r1 of Inl e \<Rightarrow> (Inl e, w1) | Inr x \<Rightarrow> f x w1)"
  by (simp add: bnd_def)

lemma infer_finish:
  "\<exists>r. bnd (drop_nonfinite raw) (\<lambda>est.
           bnd (if \<not> tt then lift (one_tailed_p est pt n)
                else ret (two_tailed_p est pt)) (\<lambda>p.
           ret (p, est, pt, nm))) w1
        = (r, w1\<lparr>warnings := warnings w1 @
              (if list_ex (\<lambda>x. isinf x \<or> isnan x) raw then [nonfinite_warning] else [])\<rparr>)"
  by (cases "one_tailed_p (filter (\<lambda>x. \<not> (isinf x \<or> isnan x)) raw) pt n")
     (simp_all add: bnd_def drop_nonfinite_eq ret_def lift_def raise_def)

lemma compare_finish:
  "\<exists>r. bnd (drop_nonfinite raw) (\<lambda>est. ret (two_tailed_p est pt, est, pt, nm)) w1
        = (r, w1\<lparr>warnings := warnings w1 @
              (if list_ex (\<lambda>x. isinf x \<or> isnan x) raw then [nonfinite_warning] else [])\<rparr>)"
  by (simp add: bnd_def drop_nonfinite_eq ret_def)

lemma infer_heap:
  assumes "a < next_addr w"
  shows "heap (snd (infer_segregation fenv R seg n ap tw w)) a = heap w a"
proof (cases "List.member valid_single_approaches ap")
  case False
  then show ?thesis by (simp add: infer_segregation_def raise_def)
next
  case True
  show ?thesis
  proof (cases tw)
    case (PyBool tt)
    let ?m = "bnd (df_copy (data seg)) (\<lambda>a. simulate fenv R seg a n ap)"
    obtain r1 w1 where m: "?m w = (r1, w1)" by (cases "?m w")
    have "heap (snd (infer_segregation fenv R seg n ap (PyBool tt) w)) = heap w1"
    proof (cases r1)
      case (Inl e)
      with m show ?thesis unfolding infer_segregation_eq[OF True] by (simp add: bnd_run)
    next
      case (Inr raw)
      from infer_finish[where raw = raw and tt = tt and ?w1.0 = w1 and pt = "statistic seg"
          and n = n and nm = "class_name_of (cls seg)"]
      obtain r where "bnd (drop_nonfinite raw) (\<lambda>est.
           bnd (if \<not> tt then lift (one_tailed_p est (statistic seg) n)
                else ret (two_tailed_p est (statistic seg))) (\<lambda>p.
           ret (p, est, statistic seg, class_name_of (cls seg)))) w1
        = (r, w1\<lparr>warnings := warnings w1 @
              (if list_ex (\<lambda>x. isinf x \<or> isnan x) raw then [nonfinite_warning] else [])\<rparr>)" ..
      with m Inr show ?thesis unfolding infer_segregation_eq[OF True] by (simp add: bnd_run)
    qed
    with stage_frame(1)[OF safe_infer_stage m] assms PyBool show ?thesis by simp
  qed (simp_all add: infer_segregation_def raise_def True)
qed

lemma compare_heap:
  assumes "a < next_addr w"
  shows "heap (snd (compare_segregation fenv gen R s1 s2 n ap w)) a = heap w a"
proof (cases "List.member valid_compare_approaches ap \<and> cls s1 = cls s2")
  case False
  then show ?thesis by (auto simp: compare_segregation_def raise_def)
next
  case True
  let ?m = "bnd (df_copy (data s1)) (\<lambda>data_1. bnd (df_copy (data s2)) (\<lambda>data_2.
                  if ap = ''random_label'' then random_label fenv R s1 s2 data_1 data_2 n
                  else counterfactual fenv gen R s1 s2 data_1 data_2 n ap))"
  obtain r1 w1 where m: "?m w = (r1, w1)" by (cases "?m w")
  from True have eq: "compare_segregation fenv gen R s1 s2 n ap = bnd ?m (\<lambda>est_sim.
           bnd (drop_nonfinite est_sim) (\<lambda>est_sim.
           ret (two_tailed_p est_sim (fsub (statistic s1) (statistic s2)), est_sim,
                fsub (statistic s1) (statistic s2), class_name_of (cls s1))))"
    by (intro compare_segregation_eq) simp_all
  have "heap (snd (compare_segregation fenv gen R s1 s2 n ap w)) = heap w1"
  proof (cases r1)
    case (Inl e)
    with m show ?thesis unfolding eq by (simp add: bnd_run)
  next
    case (Inr raw)
    from compare_finish[where raw = raw and ?w1.0 = w1
        and pt = "fsub (statistic s1) (statistic s2)" and nm = "class_name_of (cls s1)"]
    obtain r where "bnd (drop_nonfinite raw) (\<lambda>est.
         ret (two_tailed_p est (fsub (statistic s1) (statistic s2)), est,
              fsub (statistic s1) (statistic s2), class_name_of (cls s1))) w1
        = (r, w1\<lparr>warnings := warnings w1 @
              (if list_ex (\<lambda>x. isinf x \<or> isnan x) raw then [nonfinite_warning] else [])\<rparr>)" ..
    with m Inr show ?thesis unfolding eq by (simp add: bnd_run)
  qed
  with stage_frame(1)[OF safe_compare_stage m] assms show ?thesis by simp
qed

lemma decompose_heap:
  assumes "a < next_addr w"
  shows "heap (snd (decompose_segregation fenv gen index1 index2 approach w)) a = heap w a"
proof -
  obtain r w1 where m: "decompose_segregation fenv gen index1 index2 approach w = (r, w1)"
    by (cases "decompose_segregation fenv gen index1 index2 approach w")
  from stage_frame(1)[OF safe_decompose m] assms m show ?thesis by simp
qed

section \<open>The data of the caller\<close>

text \<open>
  C8. No engine changes an object that exists when it is called: after any run of the
  single-sample engine, of the two-sample engine or of the decomposition, whatever its
  arguments and whether it returns or raises, every data frame of the caller (the data
  and the core data of the index results among them) has the cells it had before. The
  engines work on copies, which are new objects.
\<close>

theorem engines_leave_inputs_unchanged:
  assumes "a < next_addr w"
  shows "heap (snd (infer_segregation fenv R seg n ap tw w)) a = heap w a \<and>
         heap (snd (compare_segregation fenv gen R s1 s2 n ap2 w)) a = heap w a \<and>
         heap (snd (decompose_segregation fenv gen index1 index2 approach w)) a = heap w a"
  using infer_heap[OF assms] compare_heap[OF assms] decompose_heap[OF assms] by simp

theorem engines_leave_inputs_unchanged_witness:
  "data pop_index1 < next_addr pop_world \<and>
   heap pop_world (data pop_index1) = Some (ex_frame ''HISP_'' ''TOT_POP'' [1, 3] [4, 4]) \<and>
   heap (snd (infer_segregation ex_fenv (ex_rng (\<lambda>k n. k mod n)) pop_index1 2 ''systematic''
                (PyBool True) pop_world)) (data pop_index1)
     = Some (ex_frame ''HISP_'' ''TOT_POP'' [1, 3] [4, 4]) \<and>
   heap (snd (compare_segregation ex_fenv ex_gen (ex_rng (\<lambda>k n. k mod n)) pop_index1 pop_index2
                2 ''random_label'' pop_world)) (data pop_index1)
     = Some (ex_frame ''HISP_'' ''TOT_POP'' [1, 3] [4, 4]) \<and>
   heap (snd (decompose_segregation ex_fenv ex_gen pop_index1 pop_index2 ''composition''
                pop_world)) (data pop_index1)
     = Some (ex_frame ''HISP_'' ''TOT_POP'' [1, 3] [4, 4])"
proof -
  have h: "data pop_index1 < next_addr pop_world"
    and d: "heap pop_world (data pop_index1) = Some (ex_frame ''HISP_'' ''TOT_POP'' [1, 3] [4, 4])"
    by (simp_all add: pop_index1_def ex_index_def pop_world_def ex_world_def)
  from engines_leave_inputs_unchanged[OF h, where fenv = ex_fenv
      and R = "ex_rng (\<lambda>k n. k mod n)" and seg = pop_index1 and n = 2
      and ap = "''systematic''" and tw = "PyBool True" and gen = ex_gen
      and ?s1.0 = pop_index1 and ?s2.0 = pop_index2 and ?ap2.0 = "''random_label''"
      and ?index1.0 = pop_index1 and ?index2.0 = pop_index2
      and approach = "''composition''"] h d
  show ?thesis by simp
qed

section \<open>Index results that do not match\<close>

text \<open>
  C6. Decomposing two index results with different index formulas fails on the
  assertion: only the two copies of the core data have been made, the generator and the
  index formula have not been called and nothing has been drawn. Comparing two index
  results of different classes fails before anything is done at all: with the class
  check when the null approach is one of the four known ones, and with the check of the
  null approach, which comes first, otherwise.
\<close>

theorem mismatched_indices_fail_early:
  "(func index1 \<noteq> func index2 \<and>
    core_data index1 < next_addr w \<and> core_data index2 < next_addr w \<and>
    heap w (core_data index1) = Some c1 \<and> heap w (core_data index2) = Some c2 \<longrightarrow>
      decompose_segregation fenv gen index1 index2 approach w
        = (Inl (AssertionError ''Segregation indices must be of the same type''),
           w\<lparr>heap := (heap w)(next_addr w \<mapsto> c1, Suc (next_addr w) \<mapsto> c2),
              next_addr := Suc (Suc (next_addr w))\<rparr>)) \<and>
   (cls s1 \<noteq> cls s2 \<longrightarrow>
      compare_segregation fenv gen R s1 s2 n ap w
        = (Inl (if List.member valid_compare_approaches ap
                then TypeError ''seg_class_1 and seg_class_2 must be the same type/class.''
                else ValueError ''null_approach must one of 'random_label', 'counterfactual_composition', 'counterfactual_share', 'counterfactual_dual_composition' ''),
           w))"
proof (intro conjI impI)
  assume a: "func index1 \<noteq> func index2 \<and>
    core_data index1 < next_addr w \<and> core_data index2 < next_addr w \<and>
    heap w (core_data index1) = Some c1 \<and> heap w (core_data index2) = Some c2"
  show "decompose_segregation fenv gen index1 index2 approach w
        = (Inl (AssertionError ''Segregation indices must be of the same type''),
           w\<lparr>heap := (heap w)(next_addr w \<mapsto> c1, Suc (next_addr w) \<mapsto> c2),
              next_addr := Suc (Suc (next_addr w))\<rparr>)"
    using a by (simp add: decompose_segregation_def M_defs)
next
  assume "cls s1 \<noteq> cls s2"
  then show "compare_segregation fenv gen R s1 s2 n ap w
        = (Inl (if List.member valid_compare_approaches ap
                then TypeError ''seg_class_1 and seg_class_2 must be the same type/class.''
                else ValueError ''null_approach must one of 'random_label', 'counterfactual_composition', 'counterfactual_share', 'counterfactual_dual_composition' ''),
           w)"
    by (simp add: compare_segregation_def raise_def)
qed

theorem mismatched_indices_fail_early_witness:
  "func lit_index1 \<noteq> func (lit_index2\<lparr>func := 1\<rparr>) \<and>
   core_data lit_index1 < next_addr lit_world \<and>
   core_data (lit_index2\<lparr>func := 1\<rparr>) < next_addr lit_world \<and>
   heap lit_world (core_data lit_index1)
     = Some (ex_frame ''group_pop_var'' ''total_pop_var'' [1, 3] [4, 4]) \<and>
   heap lit_world (core_data (lit_index2\<lparr>func := 1\<rparr>))
     = Some (ex_frame ''group_pop_var'' ''total_pop_var'' [1, 1] [4, 4]) \<and>
   fst (decompose_segregation ex_fenv ex_gen lit_index1 (lit_index2\<lparr>func := 1\<rparr>)
          ''composition'' lit_world)
     = Inl (AssertionError ''Segregation indices must be of the same type'') \<and>
   draws (snd (decompose_segregation ex_fenv ex_gen lit_index1 (lit_index2\<lparr>func := 1\<rparr>)
          ''composition'' lit_world)) = 0 \<and>
   evals (snd (decompose_segregation ex_fenv ex_gen lit_index1 (lit_index2\<lparr>func := 1\<rparr>)
          ''composition'' lit_world)) = 0 \<and>
   cls lit_index1 \<noteq> cls (multi_index 1 multi_dissim_cls) \<and>
   compare_segregation ex_fenv ex_gen (ex_rng (\<lambda>k n. 0)) lit_index1
       (multi_index 1 multi_dissim_cls) 2 ''random_label'' lit_world
     = (Inl (TypeError ''seg_class_1 and seg_class_2 must be the same type/class.''),
        lit_world)"
proof -
  note T = mismatched_indices_fail_early[where ?index1.0 = lit_index1
      and ?index2.0 = "lit_index2\<lparr>func := 1\<rparr>" and w = lit_world
      and ?c1.0 = "ex_frame ''group_pop_var'' ''total_pop_var'' [1, 3] [4, 4]"
      and ?c2.0 = "ex_frame ''group_pop_var'' ''total_pop_var'' [1, 1] [4, 4]"
      and fenv = ex_fenv and gen = ex_gen and approach = "''composition''"
      and ?s1.0 = lit_index1 and ?s2.0 = "multi_index 1 multi_dissim_cls"
      and R = "ex_rng (\<lambda>k n. 0)" and n = 2 and ap = "''random_label''"]
  have h: "func lit_index1 \<noteq> func (lit_index2\<lparr>func := 1\<rparr>) \<and>
   core_data lit_index1 < next_addr lit_world \<and>
   core_data (lit_index2\<lparr>func := 1\<rparr>) < next_addr lit_world \<and>
   heap lit_world (core_data lit_index1)
     = Some (ex_frame ''group_pop_var'' ''total_pop_var'' [1, 3] [4, 4]) \<and>
   heap lit_world (core_data (lit_index2\<lparr>func := 1\<rparr>))
     = Some (ex_frame ''group_pop_var'' ''total_pop_var'' [1, 1] [4, 4])"
    by (simp add: lit_index1_def lit_index2_def ex_index_def lit_world_def ex_world_def)
  have c: "cls lit_index1 \<noteq> cls (multi_index 1 multi_dissim_cls)"
    by (simp add: lit_index1_def ex_index_def multi_index_def multi_dissim_cls_def)
  have v: "List.member valid_compare_approaches ''random_label''"
    by (simp add: valid_compare_approaches_def)
  from T[THEN conjunct1, THEN mp, OF h]
  have d: "fst (decompose_segregation ex_fenv ex_gen lit_index1 (lit_index2\<lparr>func := 1\<rparr>)
          ''composition'' lit_world)
     = Inl (AssertionError ''Segregation indices must be of the same type'') \<and>
   draws (snd (decompose_segregation ex_fenv ex_gen lit_index1 (lit_index2\<lparr>func := 1\<rparr>)
          ''composition'' lit_world)) = 0 \<and>
   evals (snd (decompose_segregation ex_fenv ex_gen lit_index1 (lit_index2\<lparr>func := 1\<rparr>)
          ''composition'' lit_world)) = 0"
    by (simp add: lit_world_def ex_world_def)
  from T[THEN conjunct2, THEN mp, OF c] v
  have e: "compare_segregation ex_fenv ex_gen (ex_rng (\<lambda>k n. 0)) lit_index1
       (multi_index 1 multi_dissim_cls) 2 ''random_label'' lit_world
     = (Inl (TypeError ''seg_class_1 and seg_class_2 must be the same type/class.''),
        lit_world)"
    by simp
  from h c d e show ?thesis by simp
qed

section \<open>The NaN handler of the multigroup dissimilarity index\<close>

lemma nan_frame_core: "select_cols nan_frame [''A'', ''B''] = Inr nan_frame"
  by (simp add: select_cols_def nan_frame_def from_dict_def get_col_def)

lemma nan_frame_handled:
  "ex_nan_handle nan_frame = Inr (from_dict [(''A'', [Num (Fin 1 0)]), (''B'', [Num (Fin 3 0)])])"
  by code_simp

lemma nan_frame_unfiltered:
  "multi_dissim_unfiltered nan_frame [''A'', ''B''] = Inr (NaN, nan_frame, [''A'', ''B''])"
  by code_simp

text \<open>
  C10. In the multigroup dissimilarity index the data set that the NaN handler returns
  is not used: whenever the handler returns on \<open>data[groups]\<close>, whatever it returns,
  the statistic, the core data and the groups are those of the same computation without
  the call of the handler, computed from the unfiltered \<open>data[groups]\<close>.
\<close>

theorem nan_handling_has_no_effect:
  assumes "\<And>core. select_cols data_in groups_in = Inr core \<Longrightarrow> \<exists>d. nan_handle core = Inr d"
  shows "multi_dissim nan_handle data_in groups_in = multi_dissim_unfiltered data_in groups_in"
proof (cases "select_cols data_in groups_in")
  case (Inl e)
  then show ?thesis by (simp add: multi_dissim_def multi_dissim_unfiltered_def)
next
  case (Inr core)
  from assms[OF Inr] obtain d where "nan_handle core = Inr d" ..
  with Inr show ?thesis by (simp add: multi_dissim_def multi_dissim_unfiltered_def)
qed

theorem nan_handling_has_no_effect_witness:
  "select_cols nan_frame [''A'', ''B''] = Inr nan_frame \<and>
   ex_nan_handle nan_frame
     = Inr (from_dict [(''A'', [Num (Fin 1 0)]), (''B'', [Num (Fin 3 0)])]) \<and>
   multi_dissim ex_nan_handle nan_frame [''A'', ''B''] = Inr (NaN, nan_frame, [''A'', ''B'']) \<and>
   multi_dissim_unfiltered nan_frame [''A'', ''B''] = Inr (NaN, nan_frame, [''A'', ''B''])"
proof -
  have "\<And>core. select_cols nan_frame [''A'', ''B''] = Inr core \<Longrightarrow>
          \<exists>d. ex_nan_handle core = Inr d"
    by (simp add: ex_nan_handle_def)
  from nan_handling_has_no_effect[of nan_frame "[''A'', ''B'']" ex_nan_handle, OF this]
    nan_frame_core nan_frame_handled nan_frame_unfiltered
  show ?thesis by simp
qed

end
